theory Spec2Isabelle
  imports Complex_Main "HOL-Library.AList" "HOL-Library.Char_ord" "HOL-Library.List_Lexorder"
begin

section \<open>Go values and library functions used by the code\<close>

text \<open>
  A Go \<^verbatim>\<open>map[K]V\<close> is an association list with distinct keys, read with \<open>map_of\<close> and
  written with \<open>AList.update\<close>; a nil map and an empty map are both \<open>[]\<close>, except for the
  variables of a mutation, where the code tests for nil and the model has an option. A
  value of type \<^verbatim>\<open>any\<close> is a JSON-like value; \<open>Null\<close> is Go's nil. \<open>Num n\<close> is a Go \<^verbatim>\<open>int\<close>
  (such as the attempt number), or a \<^verbatim>\<open>float64\<close> of integral value below \<open>10^6\<close> in
  magnitude, which \<^verbatim>\<open>%v\<close> prints as it prints the integer; a decoded JSON number that
  has a fraction, or that \<^verbatim>\<open>%v\<close> prints with an exponent (from \<open>10^6\<close> on), has no
  counterpart in the model.
  Go's \<^verbatim>\<open>int\<close> is modelled by \<open>int\<close>: none of the quantities below comes near 64 bits.
\<close>

datatype any = Null | Bool bool | Num int | Str string | Arr "any list" | Obj "(string \<times> any) list"

text \<open>\<^verbatim>\<open>fmt.Sprintf("%d", n)\<close>\<close>

fun show_nat :: "nat \<Rightarrow> string" where
  "show_nat n = (if n < 10 then [''0123456789'' ! n]
                 else show_nat (n div 10) @ [''0123456789'' ! (n mod 10)])"

declare show_nat.simps [simp del]

definition show_int :: "int \<Rightarrow> string" where
  "show_int i = (if i < 0 then CHR ''-'' # show_nat (nat (- i)) else show_nat (nat i))"

text \<open>\<^verbatim>\<open>strings.Join\<close>\<close>

fun Join :: "string list \<Rightarrow> string \<Rightarrow> string" where
  "Join [] sep = []"
| "Join [x] sep = x"
| "Join (x # y # ys) sep = x @ sep @ Join (y # ys) sep"

text \<open>\<^verbatim>\<open>fmt.Sprintf("%v", v)\<close>: a map prints its entries sorted by key.\<close>

fun fmt_v :: "any \<Rightarrow> string" where
  "fmt_v Null = ''<nil>''"
| "fmt_v (Bool b) = (if b then ''true'' else ''false'')"
| "fmt_v (Num n) = show_int n"
| "fmt_v (Str s) = s"
| "fmt_v (Arr xs) = ''['' @ Join (map fmt_v xs) '' '' @ '']''"
| "fmt_v (Obj kvs) =
     ''map['' @ Join (map (\<lambda>(k, s). k @ '':'' @ s)
                        (sort_key fst (map (\<lambda>(k, v). (k, fmt_v v)) kvs))) '' '' @ '']''"

text \<open>\<^verbatim>\<open>strings.HasPrefix\<close>, \<^verbatim>\<open>strings.TrimPrefix\<close>, \<^verbatim>\<open>strings.Contains\<close>,
  \<^verbatim>\<open>strings.ReplaceAll\<close> (left to right, without overlap; the pattern is never empty
  here) and \<^verbatim>\<open>strings.TrimSpace\<close>, for ASCII text: of the white space of Unicode the
  model knows the six ASCII characters only.\<close>

definition HasPrefix :: "string \<Rightarrow> string \<Rightarrow> bool" where
  "HasPrefix s p = (take (length p) s = p)"

definition TrimPrefix :: "string \<Rightarrow> string \<Rightarrow> string" where
  "TrimPrefix s p = (if HasPrefix s p then drop (length p) s else s)"

fun Contains :: "string \<Rightarrow> string \<Rightarrow> bool" where
  "Contains [] sub = (sub = [])"
| "Contains (c # cs) sub = (HasPrefix (c # cs) sub \<or> Contains cs sub)"

function ReplaceAll :: "string \<Rightarrow> string \<Rightarrow> string \<Rightarrow> string" where
  "ReplaceAll s old new =
     (if old = [] \<or> s = [] then s
      else if HasPrefix s old then new @ ReplaceAll (drop (length old) s) old new
      else hd s # ReplaceAll (tl s) old new)"
  by pat_completeness auto
termination
  by (relation "measure (\<lambda>(s, old, new). length s)") (auto simp: HasPrefix_def)

declare ReplaceAll.simps [simp del]

definition isSpace :: "char \<Rightarrow> bool" where
  "isSpace c = (c \<in> set [CHR '' '', CHR 0x09, CHR 0x0A, CHR 0x0B, CHR 0x0C, CHR 0x0D])"

definition TrimSpace :: "string \<Rightarrow> string" where
  "TrimSpace s = rev (dropWhile isSpace (rev (dropWhile isSpace s)))"

section \<open>The request record (package ir)\<close>

record ir_Body =
  Type :: string
  Content :: any
  ContentBase64 :: string

record ir_Auth =
  auth_Type :: string
  Username :: string
  Password :: string
  Token :: string

record ir_Request =
  Method :: string
  URL :: string
  Query :: "(string \<times> any) list"
  Headers :: "(string \<times> string) list"
  Cookies :: "(string \<times> string) list"
  Body :: "ir_Body option"
  Auth :: "ir_Auth option"

record ir_Evaluation =
  Evaluator :: string
  EvaluatorPath :: string
  TimeoutMs :: int
  Vars :: "(string \<times> any) list"

text \<open>
  Of \<^verbatim>\<open>ir.IR\<close> the model keeps the request and the evaluator settings. The transport
  settings, hooks and metadata only parameterise the HTTP client, whose behaviour is an
  input of the model; the transport record is taken to be present, as every constructor of
  the repository makes it (\<^verbatim>\<open>Execute\<close> on a record without one dereferences nil, which the
  model does not cover). The method and the URL reach the client as the record and
  \<open>url_with_query\<close> give them: that \<^verbatim>\<open>http.NewRequest\<close> reads an empty method as \<^verbatim>\<open>GET\<close>
  and encodes the URL again is not modelled.
\<close>

record IR =
  Request :: ir_Request
  Evaluation :: "ir_Evaluation option"

definition DefaultEvaluation :: ir_Evaluation where
  "DefaultEvaluation = \<lparr>Evaluator = ''bun'', EvaluatorPath = [], TimeoutMs = 5000, Vars = []\<rparr>"

record ExecutedRequest =
  xr_Method :: string
  xr_URL :: string
  xr_Headers :: "(string \<times> string) list"
  xr_Body :: any

record Response =
  Status :: int
  resp_Headers :: "(string \<times> string) list"
  resp_Body :: any
  LatencyMs :: real
  SizeBytes :: int
  resp_Error :: string

text \<open>The context holds the request record by pointer; the model keeps the value the
  record has when the context is built.\<close>

record EvaluationContext =
  ctx_IR :: IR
  ctx_Request :: ExecutedRequest
  ctx_Response :: Response
  ctx_Vars :: "(string \<times> any) list"

record Mutations =
  mut_Headers :: "(string \<times> string) list"
  mut_Query :: "(string \<times> string) list"
  mut_Body :: any
  mut_Vars :: "(string \<times> any) list option"

record Actions =
  RetryAfterMs :: int
  MaxRetries :: int
  Goto :: string

record EvaluatorDecision =
  Decision :: string
  Reason :: string
  Mutations :: "Mutations option"
  Actions :: "Actions option"

section \<open>The outside world\<close>

text \<open>
  What the HTTP client, the child process of an evaluator and the standard library answer
  is an input of the model. A request as handed to \<^verbatim>\<open>client.Do\<close>: the cookies are in its
  \<^verbatim>\<open>Cookie\<close> header; header keys are taken to be in canonical form. The body is kept as
  the value it is rendered from.
\<close>

datatype body_reader = JSONBytes any | FormBytes "(string \<times> any) list" | TextBytes string

record http_request =
  hr_Method :: string
  hr_URL :: string
  hr_Header :: "(string \<times> string) list"
  hr_Body :: "body_reader option"

record http_response =
  StatusCode :: int
  Header :: "(string \<times> string list) list"
  body_read :: "string + string"

text \<open>\<^verbatim>\<open>client.Do\<close> fails with a \<^verbatim>\<open>*url.Error\<close>; its message is
  \<^verbatim>\<open>Op + " " + quoted URL + ": " + Err\<close>.\<close>

record url_Error =
  Op :: string
  err_URL :: string
  Err :: string

definition url_Error_msg :: "url_Error \<Rightarrow> string" where
  "url_Error_msg e = Op e @ '' '' @ [CHR 0x22] @ err_URL e @ [CHR 0x22] @ '': '' @ Err e"

datatype proc_outcome =
    DeadlineExceeded
  | ExitError string string
  | MalformedOutput string string
  | Output EvaluatorDecision

record world =
  url_with_query :: "string \<Rightarrow> (string \<times> any) list \<Rightarrow> string + string"
  NewRequest_err :: "string \<Rightarrow> string \<Rightarrow> string option"
  client_Do :: "nat \<Rightarrow> http_request \<Rightarrow> url_Error + http_response"
  elapsed_us :: "nat \<Rightarrow> int"
  json_Unmarshal :: "string \<Rightarrow> any option"
  json_Marshal :: "any \<Rightarrow> string"
  LookPath_mojo :: bool
  cmd_Run :: "nat \<Rightarrow> string list \<Rightarrow> EvaluationContext \<Rightarrow> proc_outcome"
  ctx_Done :: "nat \<Rightarrow> string option"
  FindStringSubmatch :: "string \<Rightarrow> string \<Rightarrow> string list option"
  ParseDuration :: "string \<Rightarrow> int option"
  base64 :: "string \<Rightarrow> string"

text \<open>
  \<open>url_with_query w u q\<close> is \<^verbatim>\<open>url.Parse(u)\<close> followed by adding the query \<open>q\<close>,
  \<open>Inl\<close> the parse error; \<open>NewRequest_err\<close> is the error of \<^verbatim>\<open>http.NewRequest\<close>, if any;
  \<open>client_Do w n\<close> answers the \<open>n\<close>-th request sent and \<open>elapsed_us w n\<close> is the time it took;
  \<open>cmd_Run w n\<close> is what the \<open>n\<close>-th evaluator process does; \<open>ctx_Done w n\<close> is the error of
  the outer context when it is cancelled during the wait that follows the \<open>n\<close>-th evaluation;
  \<open>FindStringSubmatch w p s\<close> is \<open>None\<close> when the pattern \<open>p\<close> does not compile;
  \<open>ParseDuration\<close> answers in nanoseconds.
\<close>

section \<open>The HTTP executor (package executor)\<close>

subsection \<open>Cookie jar\<close>

text \<open>
  The jar of \<^verbatim>\<open>net/http/cookiejar\<close>, for cookies without attributes: an association from
  the host of the request URL to the cookies stored for it, by name. A cookie set again
  keeps its place. The host is the text between the scheme and the path, compared as it
  is written: the model has no port, no case folding of the host, and no path, domain,
  expiry or \<^verbatim>\<open>Secure\<close> attribute, so it is faithful for requests that name one host in one
  spelling and for cookies that carry a name and a value only.
\<close>

type_synonym CookieJar = "(string \<times> (string \<times> string) list) list"

definition NewCookieJar :: CookieJar where
  "NewCookieJar = []"

fun drop_scheme :: "string \<Rightarrow> string" where
  "drop_scheme [] = []"
| "drop_scheme (c # cs) = (if HasPrefix (c # cs) ''://'' then drop 3 (c # cs) else drop_scheme cs)"

definition url_Host :: "string \<Rightarrow> string" where
  "url_Host u = takeWhile (\<lambda>c. c \<notin> set ''/?#'') (drop_scheme u)"

definition GetCookies :: "CookieJar \<Rightarrow> string \<Rightarrow> (string \<times> string) list" where
  "GetCookies jar urlStr = (case map_of jar (url_Host urlStr) of None \<Rightarrow> [] | Some cs \<Rightarrow> cs)"

definition SetCookies :: "CookieJar \<Rightarrow> string \<Rightarrow> (string \<times> string) list \<Rightarrow> CookieJar" where
  "SetCookies jar urlStr cookies =
     AList.update (url_Host urlStr)
       (fold (\<lambda>(n, v). AList.update n v) cookies (GetCookies jar urlStr)) jar"

text \<open>\<^verbatim>\<open>resp.Cookies()\<close>: name and value of every \<^verbatim>\<open>Set-Cookie\<close> line.\<close>

definition parse_set_cookie :: "string \<Rightarrow> (string \<times> string) option" where
  "parse_set_cookie line =
     (let nv = TrimSpace (takeWhile (\<lambda>c. c \<noteq> CHR '';'') line);
          name = takeWhile (\<lambda>c. c \<noteq> CHR ''='') nv
      in if CHR ''='' \<notin> set nv \<or> TrimSpace name = [] then None
         else Some (TrimSpace name, drop (length name + 1) nv))"

definition resp_Cookies :: "http_response \<Rightarrow> (string \<times> string) list" where
  "resp_Cookies resp =
     List.map_filter parse_set_cookie
       (case map_of (Header resp) ''Set-Cookie'' of None \<Rightarrow> [] | Some ls \<Rightarrow> ls)"

text \<open>\<^verbatim>\<open>req.AddCookie\<close> appends to the \<^verbatim>\<open>Cookie\<close> header. The library also sanitises the
  name and the value, and quotes a value with a space or a comma; the model is for names
  and values that need neither.\<close>

definition AddCookie :: "(string \<times> string) list \<Rightarrow> string \<Rightarrow> string \<Rightarrow> (string \<times> string) list" where
  "AddCookie h n v =
     (case map_of h ''Cookie'' of
        None \<Rightarrow> AList.update ''Cookie'' (n @ ''='' @ v) h
      | Some c \<Rightarrow> if c \<noteq> [] then AList.update ''Cookie'' (c @ ''; '' @ n @ ''='' @ v) h
                  else AList.update ''Cookie'' (n @ ''='' @ v) h)"

subsection \<open>Building and sending a request\<close>

record Executor =
  cookieJar :: "CookieJar option"
  http_calls :: "http_request list"

text \<open>\<open>http_calls\<close> is not a field of the source: it lists the requests handed to
  \<^verbatim>\<open>client.Do\<close> so far, oldest first.\<close>

definition NewExecutor :: Executor where
  "NewExecutor = \<lparr>cookieJar = Some NewCookieJar, http_calls = []\<rparr>"

definition flattenHeaders :: "(string \<times> string list) list \<Rightarrow> (string \<times> string) list" where
  "flattenHeaders headers =
     List.map_filter (\<lambda>(key, values). case values of [] \<Rightarrow> None | v # _ \<Rightarrow> Some (key, v)) headers"

definition buildBody :: "ir_Body \<Rightarrow> string + (body_reader \<times> string)" where
  "buildBody body =
     (if Type body = ''json'' then Inr (JSONBytes (Content body), ''application/json'')
      else if Type body = ''form'' then
        (case Content body of
           Obj formData \<Rightarrow> Inr (FormBytes formData, ''application/x-www-form-urlencoded'')
         | _ \<Rightarrow> Inl ''form body must be map[string]any'')
      else if Type body = ''text'' then
        (case Content body of
           Str text \<Rightarrow> Inr (TextBytes text, ''text/plain'')
         | _ \<Rightarrow> Inl ''text body must be string'')
      else if Type body = ''binary'' then
        Inr (TextBytes (ContentBase64 body), ''application/octet-stream'')
      else Inl (''unsupported body type: '' @ Type body))"

definition header_get :: "(string \<times> string) list \<Rightarrow> string \<Rightarrow> string" where
  "header_get h k = (case map_of h k of None \<Rightarrow> [] | Some v \<Rightarrow> v)"

definition set_auth :: "world \<Rightarrow> ir_Auth option \<Rightarrow> (string \<times> string) list \<Rightarrow> (string \<times> string) list" where
  "set_auth w a h =
     (case a of
        None \<Rightarrow> h
      | Some au \<Rightarrow>
          if auth_Type au = ''basic'' then
            AList.update ''Authorization''
              (''Basic '' @ base64 w (Username au @ '':'' @ Password au)) h
          else if auth_Type au = ''bearer'' then
            AList.update ''Authorization'' (''Bearer '' @ Token au) h
          else h)"

text \<open>\<^verbatim>\<open>buildRequest\<close> writes the content type into the headers of the record it is
  given, so the record is returned too.\<close>

definition buildRequest :: "world \<Rightarrow> IR \<Rightarrow> IR \<times> (string + http_request)" where
  "buildRequest w irSpec =
     (let req = Request irSpec in
      case (if Query req \<noteq> [] then url_with_query w (URL req) (Query req) else Inr (URL req)) of
        Inl err \<Rightarrow> (irSpec, Inl (''invalid URL: '' @ err))
      | Inr reqURL \<Rightarrow>
         (case (case Body req of
                  None \<Rightarrow> Inr (None, req)
                | Some b \<Rightarrow>
                   (case buildBody b of
                      Inl err \<Rightarrow> Inl err
                    | Inr (bodyReader, contentType) \<Rightarrow>
                        Inr (Some bodyReader,
                             if contentType \<noteq> [] \<and> header_get (Headers req) ''Content-Type'' = []
                             then req\<lparr>Headers := AList.update ''Content-Type'' contentType (Headers req)\<rparr>
                             else req))) of
            Inl err \<Rightarrow> (irSpec, Inl err)
          | Inr (body, req') \<Rightarrow>
             (let irSpec' = irSpec\<lparr>Request := req'\<rparr> in
              case NewRequest_err w (Method req') reqURL of
                Some err \<Rightarrow> (irSpec', Inl (''failed to create request: '' @ err))
              | None \<Rightarrow>
                 (let h1 = fold (\<lambda>(key, value). AList.update key value) (Headers req') [];
                      h2 = fold (\<lambda>(name, value) h. AddCookie h name value) (Cookies req') h1;
                      h3 = set_auth w (Auth req') h2
                  in (irSpec',
                      Inr \<lparr>hr_Method = Method req', hr_URL = reqURL, hr_Header = h3,
                           hr_Body = body\<rparr>)))))"

definition add_jar_cookies :: "Executor \<Rightarrow> http_request \<Rightarrow> http_request" where
  "add_jar_cookies e req =
     (case cookieJar e of
        None \<Rightarrow> req
      | Some jar \<Rightarrow>
          req\<lparr>hr_Header :=
            fold (\<lambda>(name, value) h. AddCookie h name value)
                 (GetCookies jar (hr_URL req)) (hr_Header req)\<rparr>)"

definition Execute :: "world \<Rightarrow> Executor \<Rightarrow> IR \<Rightarrow> (string + EvaluationContext) \<times> IR \<times> Executor" where
  "Execute w e irSpec0 =
     (case buildRequest w irSpec0 of
        (irSpec, Inl err) \<Rightarrow> (Inl (''failed to build request: '' @ err), irSpec, e)
      | (irSpec, Inr req0) \<Rightarrow>
         (let req = add_jar_cookies e req0;
              n = length (http_calls e);
              e1 = e\<lparr>http_calls := http_calls e @ [req]\<rparr>;
              ctx = \<lparr>ctx_IR = irSpec,
                     ctx_Request = \<lparr>xr_Method = hr_Method req, xr_URL = hr_URL req,
                                    xr_Headers = hr_Header req,
                                    xr_Body = (case Body (Request irSpec) of
                                                 None \<Rightarrow> Null | Some b \<Rightarrow> Content b)\<rparr>,
                     ctx_Response = \<lparr>Status = 0, resp_Headers = [], resp_Body = Null,
                                     LatencyMs = real_of_int (elapsed_us w n) / 1000,
                                     SizeBytes = 0, resp_Error = []\<rparr>,
                     ctx_Vars = (case Evaluation irSpec of
                                   None \<Rightarrow> []
                                 | Some ev \<Rightarrow> fold (\<lambda>(k, v). AList.update k v) (Vars ev) [])\<rparr>
          in case client_Do w n req of
               Inl err \<Rightarrow>
                 (Inr (ctx\<lparr>ctx_Response :=
                         (ctx_Response ctx)\<lparr>resp_Error := url_Error_msg err, Status := 0\<rparr>\<rparr>),
                  irSpec, e1)
             | Inr resp \<Rightarrow>
                 (let r1 = (ctx_Response ctx)\<lparr>Status := StatusCode resp,
                                              resp_Headers := flattenHeaders (Header resp)\<rparr>;
                      e2 = (case cookieJar e1 of
                              None \<Rightarrow> e1
                            | Some jar \<Rightarrow>
                                if resp_Cookies resp \<noteq> [] then
                                  e1\<lparr>cookieJar := Some (SetCookies jar (hr_URL req) (resp_Cookies resp))\<rparr>
                                else e1)
                  in case body_read resp of
                       Inl err \<Rightarrow>
                         (Inr (ctx\<lparr>ctx_Response :=
                                 r1\<lparr>resp_Error := ''failed to read response body: '' @ err\<rparr>\<rparr>),
                          irSpec, e2)
                     | Inr bodyBytes \<Rightarrow>
                         (Inr (ctx\<lparr>ctx_Response :=
                                 r1\<lparr>SizeBytes := int (length bodyBytes),
                                    resp_Body := (case json_Unmarshal w bodyBytes of
                                                    Some jsonBody \<Rightarrow> jsonBody
                                                  | None \<Rightarrow> Str bodyBytes)\<rparr>\<rparr>),
                          irSpec, e2))))"

section \<open>The evaluator gateway (package evaluator)\<close>

datatype eval_error =
    UnsupportedType string
  | EvaluatorTimeout
  | EvaluatorFailed string string
  | ParseFailed string string
  | InvalidDecision string

record Manager =
  eval_calls :: "(EvaluationContext \<times> string \<times> string) list"

text \<open>\<open>eval_calls\<close> is not a field of the source: it lists the calls of \<^verbatim>\<open>Evaluate\<close> so
  far (context, evaluator kind, evaluator path), oldest first.\<close>

definition NewManager :: Manager where
  "NewManager = \<lparr>eval_calls = []\<rparr>"

definition createBunCommand :: "string \<Rightarrow> string list" where
  "createBunCommand evaluatorPath =
     [''bun'', ''run'', if evaluatorPath = [] then ''evaluator.js'' else evaluatorPath]"

definition createPythonCommand :: "world \<Rightarrow> string \<Rightarrow> string list" where
  "createPythonCommand w evaluatorPath =
     (let path = (if evaluatorPath = [] then ''evaluator.py'' else evaluatorPath)
      in if LookPath_mojo w then [''mojo'', path] else [''python3'', path])"

definition createGoCommand :: "string \<Rightarrow> string list" where
  "createGoCommand evaluatorPath =
     [if evaluatorPath = [] then ''./evaluator'' else evaluatorPath]"

text \<open>The choice of the evaluator program in \<^verbatim>\<open>Evaluate\<close>; \<open>None\<close> for a kind that is
  not supported.\<close>

definition createCommand :: "world \<Rightarrow> string \<Rightarrow> string \<Rightarrow> string list option" where
  "createCommand w evaluatorType evaluatorPath =
     (if evaluatorType = ''bun'' then Some (createBunCommand evaluatorPath)
      else if evaluatorType = ''python'' then Some (createPythonCommand w evaluatorPath)
      else if evaluatorType = ''go'' then Some (createGoCommand evaluatorPath)
      else None)"

definition validateDecision :: "EvaluatorDecision \<Rightarrow> string option" where
  "validateDecision decision =
     (if Decision decision \<notin> set [''pass'', ''retry'', ''fail'', ''branch''] then
        Some (''invalid decision type: '' @ Decision decision)
      else if Decision decision = ''branch'' \<and>
              (case Actions decision of None \<Rightarrow> True | Some a \<Rightarrow> Goto a = []) then
        Some ''branch decision requires 'goto' action''
      else if Decision decision = ''retry'' \<and>
              (case Actions decision of None \<Rightarrow> False | Some a \<Rightarrow> RetryAfterMs a < 0) then
        Some ''retry_after_ms cannot be negative''
      else None)"

definition Evaluate ::
  "world \<Rightarrow> Manager \<Rightarrow> EvaluationContext \<Rightarrow> string \<Rightarrow> string \<Rightarrow> (eval_error + EvaluatorDecision) \<times> Manager" where
  "Evaluate w m evalCtx evaluatorType evaluatorPath =
     (let n = length (eval_calls m);
          m' = m\<lparr>eval_calls := eval_calls m @ [(evalCtx, evaluatorType, evaluatorPath)]\<rparr>
      in case createCommand w evaluatorType evaluatorPath of
           None \<Rightarrow> (Inl (UnsupportedType evaluatorType), m')
         | Some cmd \<Rightarrow>
            (case cmd_Run w n cmd evalCtx of
               DeadlineExceeded \<Rightarrow> (Inl EvaluatorTimeout, m')
             | ExitError err stderr \<Rightarrow> (Inl (EvaluatorFailed err stderr), m')
             | MalformedOutput err out \<Rightarrow> (Inl (ParseFailed err out), m')
             | Output decision \<Rightarrow>
                (case validateDecision decision of
                   Some err \<Rightarrow> (Inl (InvalidDecision err), m')
                 | None \<Rightarrow> (Inr decision, m'))))"


definition DefaultEvaluator :: "EvaluationContext \<Rightarrow> EvaluatorDecision" where
  "DefaultEvaluator ctx =
     (let decision = \<lparr>Decision = ''pass'', Reason = ''default evaluator'',
                       Mutations = None, Actions = None\<rparr>
      in if Status (ctx_Response ctx) \<ge> 400 then
           decision\<lparr>Decision := ''fail'',
                    Reason := ''HTTP '' @ show_int (Status (ctx_Response ctx)) @ '' error''\<rparr>
         else decision)"

section \<open>The retry loop (package orchestrator)\<close>

record Result =
  res_Context :: "EvaluationContext option"
  res_Decision :: "EvaluatorDecision option"
  res_Error :: "string option"
  Attempt :: int

record Stats =
  Total :: int
  Success :: int
  Failed :: int
  Retried :: int
  AvgLatency :: real
  MinLatency :: real
  MaxLatency :: real
  TotalBytes :: int

record Orchestrator =
  executor :: Executor
  evaluator :: Manager
  maxRetries :: int

definition NewOrchestrator :: "int \<Rightarrow> Orchestrator" where
  "NewOrchestrator n = \<lparr>executor = NewExecutor, evaluator = NewManager, maxRetries = n\<rparr>"

definition applyMutations :: "IR \<Rightarrow> Mutations \<Rightarrow> IR" where
  "applyMutations irSpec mutations =
     (let r0 = Request irSpec;
          r1 = r0\<lparr>Headers := fold (\<lambda>(k, v). AList.update k v) (mut_Headers mutations) (Headers r0)\<rparr>;
          r2 = r1\<lparr>Query := fold (\<lambda>(k, v). AList.update k (Str v)) (mut_Query mutations) (Query r1)\<rparr>;
          r3 = (if mut_Body mutations \<noteq> Null then
                  (case Body r2 of
                     None \<Rightarrow> r2
                   | Some b \<Rightarrow> r2\<lparr>Body := Some (b\<lparr>Content := mut_Body mutations\<rparr>)\<rparr>)
                else r2);
          ev = (case mut_Vars mutations of
                  None \<Rightarrow> Evaluation irSpec
                | Some vs \<Rightarrow>
                    (let ev0 = (case Evaluation irSpec of None \<Rightarrow> DefaultEvaluation | Some e \<Rightarrow> e)
                     in Some (ev0\<lparr>Vars := fold (\<lambda>(k, v). AList.update k v) vs (Vars ev0)\<rparr>)))
      in irSpec\<lparr>Request := r3, Evaluation := ev\<rparr>)"

text \<open>
  The state of one call of \<^verbatim>\<open>ExecuteOne\<close>: the orchestrator (whose bound the loop may
  overwrite), the request record (mutated in place by the source) and the result under
  construction. One round of the loop either returns, with the error of the call, or goes
  on to the next attempt.
\<close>

record loop_state =
  orch :: Orchestrator
  irSpec :: IR
  result :: Result

datatype outcome = Return loop_state "string option" | Continue loop_state

definition set_attempt :: "int \<Rightarrow> IR \<Rightarrow> IR" where
  "set_attempt attempt ir =
     (let ev = (case Evaluation ir of None \<Rightarrow> DefaultEvaluation | Some e \<Rightarrow> e)
      in ir\<lparr>Evaluation := Some (ev\<lparr>Vars := AList.update ''attempt'' (Num attempt) (Vars ev)\<rparr>)\<rparr>)"

definition evalType_of :: "IR \<Rightarrow> string" where
  "evalType_of ir =
     (case Evaluation ir of
        None \<Rightarrow> ''bun''
      | Some ev \<Rightarrow> if Evaluator ev \<noteq> [] then Evaluator ev else ''bun'')"

definition evalPath_of :: "IR \<Rightarrow> string" where
  "evalPath_of ir = (case Evaluation ir of None \<Rightarrow> [] | Some ev \<Rightarrow> EvaluatorPath ev)"

definition handle_decision ::
  "world \<Rightarrow> nat \<Rightarrow> loop_state \<Rightarrow> EvaluatorDecision \<Rightarrow> outcome" where
  "handle_decision w n s decision =
     (if Decision decision = ''pass'' then Return s None
      else if Decision decision = ''fail'' then
        (let err = ''evaluation failed: '' @ Reason decision
         in Return (s\<lparr>result := (result s)\<lparr>res_Error := Some err\<rparr>\<rparr>) (Some err))
      else if Decision decision = ''retry'' then
        (let s1 = (case Mutations decision of
                     None \<Rightarrow> s
                   | Some m \<Rightarrow> s\<lparr>irSpec := applyMutations (irSpec s) m\<rparr>)
         in case (case Actions decision of
                    None \<Rightarrow> None
                  | Some a \<Rightarrow> if RetryAfterMs a > 0 then ctx_Done w n else None) of
              Some err \<Rightarrow> Return s1 (Some err)
            | None \<Rightarrow>
                Continue (case Actions decision of
                            None \<Rightarrow> s1
                          | Some a \<Rightarrow>
                              if MaxRetries a > 0
                              then s1\<lparr>orch := (orch s1)\<lparr>maxRetries := MaxRetries a\<rparr>\<rparr>
                              else s1))
      else if Decision decision = ''branch'' then
        Return s (Some ''branching not yet implemented'')
      else Continue s)"

definition attempt_body :: "world \<Rightarrow> loop_state \<Rightarrow> int \<Rightarrow> outcome" where
  "attempt_body w s attempt =
     (let r1 = (result s)\<lparr>Attempt := attempt\<rparr>;
          ir1 = set_attempt attempt (irSpec s)
      in case Execute w (executor (orch s)) ir1 of
           (Inl err, ir2, ex) \<Rightarrow>
             Return (s\<lparr>orch := (orch s)\<lparr>executor := ex\<rparr>, irSpec := ir2,
                       result := r1\<lparr>res_Error := Some err\<rparr>\<rparr>) (Some err)
         | (Inr execCtx, ir2, ex) \<Rightarrow>
             (let evalType = evalType_of ir2;
                  evalPath = evalPath_of ir2;
                  n = length (eval_calls (evaluator (orch s)))
              in case Evaluate w (evaluator (orch s)) execCtx evalType evalPath of
                   (r, m) \<Rightarrow>
                     (let decision = (case r of Inl err \<Rightarrow> DefaultEvaluator execCtx | Inr d \<Rightarrow> d)
                      in handle_decision w n
                           (s\<lparr>orch := (orch s)\<lparr>executor := ex, evaluator := m\<rparr>, irSpec := ir2,
                              result := r1\<lparr>res_Context := Some execCtx,
                                           res_Decision := Some decision\<rparr>\<rparr>)
                           decision)))"

text \<open>
  \<^verbatim>\<open>for attempt := 1; attempt <= o.maxRetries; attempt++\<close>. The bound is read again at
  every round and an evaluator may raise it at every round, so the loop need not end: it
  runs on fuel, and \<open>None\<close> is a run that has not returned when the fuel is spent.
\<close>

fun ExecuteOne_loop ::
  "nat \<Rightarrow> world \<Rightarrow> loop_state \<Rightarrow> int \<Rightarrow> (loop_state \<times> string option) option" where
  "ExecuteOne_loop 0 w s attempt = None"
| "ExecuteOne_loop (Suc fuel) w s attempt =
     (if attempt \<le> maxRetries (orch s) then
        (case attempt_body w s attempt of
           Return s' err \<Rightarrow> Some (s', err)
         | Continue s' \<Rightarrow> ExecuteOne_loop fuel w s' (attempt + 1))
      else
        (let err = ''max retries exceeded: '' @ show_int (maxRetries (orch s))
         in Some (s\<lparr>result := (result s)\<lparr>res_Error := Some err\<rparr>\<rparr>, Some err)))"

definition initial_state :: "Orchestrator \<Rightarrow> IR \<Rightarrow> loop_state" where
  "initial_state o1 spec =
     \<lparr>orch = o1, irSpec = spec,
      result = \<lparr>res_Context = None, res_Decision = None, res_Error = None, Attempt = 1\<rparr>\<rparr>"

definition ExecuteOne ::
  "nat \<Rightarrow> world \<Rightarrow> Orchestrator \<Rightarrow> IR \<Rightarrow> (loop_state \<times> string option) option" where
  "ExecuteOne fuel w o1 spec =
     ExecuteOne_loop fuel w (initial_state o1 spec) 1"

fun outcome_state :: "outcome \<Rightarrow> loop_state" where
  "outcome_state (Return s err) = s"
| "outcome_state (Continue s) = s"

text \<open>
  What the outside world answers in a round, as opposed to what the loop makes of it.
  \<open>process_prints w n ir ctx P\<close>: the evaluator kind of the record \<open>ir\<close> is one of
  \<open>bun\<close>, \<open>python\<close> and \<open>go\<close>, and the process that the gateway starts for it at its
  \<open>n\<close>-th call, on the context \<open>ctx\<close>, prints a verdict that satisfies \<open>P\<close>. (For such a
  kind \<^verbatim>\<open>Evaluate\<close> always has a command to start; that is proved of \<open>createCommand\<close>, not
  assumed.) \<open>retry_answer w n d\<close>: the verdict \<open>d\<close> asks for a retry, its delay is not
  negative, it carries no \<open>max_retries\<close> override, and the outer context is not cancelled
  during the wait it asks for. \<open>answered_with_retry k w s attempt\<close>: in each of the next
  \<open>k\<close> rounds, from the state \<open>s\<close> and the attempt number \<open>attempt\<close>, the request is sent
  and the evaluator process prints such a verdict on the context of the round, the state
  of the next round being the one the round leaves behind.
\<close>

definition process_prints ::
  "world \<Rightarrow> nat \<Rightarrow> IR \<Rightarrow> EvaluationContext \<Rightarrow> (EvaluatorDecision \<Rightarrow> bool) \<Rightarrow> bool" where
  "process_prints w n ir ctx P =
     (evalType_of ir \<in> set [''bun'', ''python'', ''go''] \<and>
      (case createCommand w (evalType_of ir) (evalPath_of ir) of
         None \<Rightarrow> True
       | Some cmd \<Rightarrow> (case cmd_Run w n cmd ctx of Output d \<Rightarrow> P d | _ \<Rightarrow> False)))"

definition retry_answer :: "world \<Rightarrow> nat \<Rightarrow> EvaluatorDecision \<Rightarrow> bool" where
  "retry_answer w n d =
     (Decision d = ''retry'' \<and>
      (case Actions d of
         None \<Rightarrow> True
       | Some a \<Rightarrow>
           0 \<le> RetryAfterMs a \<and> MaxRetries a \<le> 0 \<and>
           (if RetryAfterMs a > 0 then ctx_Done w n = None else True)))"


definition stats_step :: "Result \<Rightarrow> Stats \<times> real \<Rightarrow> Stats \<times> real" where
  "stats_step r acc =
     (let (stats, totalLatency) = acc;
          (stats1, total1) =
            (case res_Context r of
               None \<Rightarrow> (stats, totalLatency)
             | Some c \<Rightarrow>
                 (let latency = LatencyMs (ctx_Response c);
                      a = (if latency < MinLatency stats then stats\<lparr>MinLatency := latency\<rparr> else stats);
                      b = (if latency > MaxLatency a then a\<lparr>MaxLatency := latency\<rparr> else a)
                  in (b\<lparr>TotalBytes := TotalBytes b + SizeBytes (ctx_Response c)\<rparr>,
                      totalLatency + latency)));
          stats2 = (if res_Error r \<noteq> None \<or>
                       (case res_Decision r of None \<Rightarrow> False | Some d \<Rightarrow> Decision d = ''fail'')
                    then stats1\<lparr>Failed := Failed stats1 + 1\<rparr>
                    else stats1\<lparr>Success := Success stats1 + 1\<rparr>);
          stats3 = (if Attempt r > 1 then stats2\<lparr>Retried := Retried stats2 + 1\<rparr> else stats2)
      in (stats3, total1))"

definition calculateStats :: "Result list \<Rightarrow> Stats" where
  "calculateStats results =
     (let (stats, totalLatency) =
            fold stats_step results
              (\<lparr>Total = int (length results), Success = 0, Failed = 0, Retried = 0,
                AvgLatency = 0, MinLatency = 999999, MaxLatency = 0, TotalBytes = 0\<rparr>, 0)
      in if Total stats > 0 then stats\<lparr>AvgLatency := totalLatency / real_of_int (Total stats)\<rparr>
         else stats)"

text \<open>\<^verbatim>\<open>Replay\<close> runs the records in sequence through the same orchestrator, drops the
  error of each call and stops at a \<open>fail\<close> verdict.\<close>

fun Replay_loop ::
  "nat \<Rightarrow> world \<Rightarrow> Orchestrator \<Rightarrow> IR list \<Rightarrow> Result list \<Rightarrow> (Result list \<times> Orchestrator) option" where
  "Replay_loop fuel w o1 [] results = Some (results, o1)"
| "Replay_loop fuel w o1 (spec # specs) results =
     (case ExecuteOne fuel w o1 spec of
        None \<Rightarrow> None
      | Some (s, err) \<Rightarrow>
          (let results' = results @ [result s]
           in if err \<noteq> None \<and>
                 (case res_Decision (result s) of None \<Rightarrow> False | Some d \<Rightarrow> Decision d = ''fail'')
              then Some (results', orch s)
              else Replay_loop fuel w (orch s) specs results'))"

definition Replay ::
  "nat \<Rightarrow> world \<Rightarrow> Orchestrator \<Rightarrow> IR list \<Rightarrow> (Result list \<times> Stats \<times> Orchestrator) option" where
  "Replay fuel w o1 specs =
     (case Replay_loop fuel w o1 specs [] of
        None \<Rightarrow> None
      | Some (results, o2) \<Rightarrow> Some (results, calculateStats results, o2))"

section \<open>Variables (package scenario, compiler and runtime)\<close>

text \<open>The pattern \<^verbatim>\<open>\$\{(\w+)\}\<close>: \<open>match_var s\<close> is the name and the rest when \<open>s\<close>
  starts with a match.\<close>

definition isWord :: "char \<Rightarrow> bool" where
  "isWord c =
     (let n = (of_char c :: nat)
      in (48 \<le> n \<and> n \<le> 57) \<or> (65 \<le> n \<and> n \<le> 90) \<or> n = 95 \<or> (97 \<le> n \<and> n \<le> 122))"

definition match_var :: "string \<Rightarrow> (string \<times> string) option" where
  "match_var s =
     (if HasPrefix s ''${'' then
        (let name = takeWhile isWord (drop 2 s);
             rest = drop (length name) (drop 2 s)
         in if name \<noteq> [] \<and> HasPrefix rest ''}'' then Some (name, drop 1 rest) else None)
      else None)"

function ReplaceAllStringFunc :: "string \<Rightarrow> (string \<Rightarrow> string) \<Rightarrow> string" where
  "ReplaceAllStringFunc s f =
     (case s of
        [] \<Rightarrow> []
      | c # cs \<Rightarrow>
         (case match_var s of
            Some (name, rest) \<Rightarrow> f (''${'' @ name @ ''}'') @ ReplaceAllStringFunc rest f
          | None \<Rightarrow> c # ReplaceAllStringFunc cs f))"
  by pat_completeness auto
termination
  by (relation "measure (\<lambda>(s, f). length s)")
     (auto simp: match_var_def Let_def HasPrefix_def split: if_splits)

declare ReplaceAllStringFunc.simps [simp del]

definition replaceVariables :: "(string \<times> string) list \<Rightarrow> string \<Rightarrow> string" where
  "replaceVariables vars input =
     ReplaceAllStringFunc input
       (\<lambda>match.
          let varName = take (length match - 3) (drop 2 match)
          in if varName = ''VU'' \<or> varName = ''__VU'' then ''${__VU}''
             else if varName = ''ITER'' \<or> varName = ''__ITER'' then ''${__ITER}''
             else if varName = ''TIME'' \<or> varName = ''__TIME'' then ''${__TIME}''
             else if varName = ''UUID'' \<or> varName = ''__RANDOM'' then ''${__RANDOM}''
             else if varName = ''COUNTER'' \<or> varName = ''__COUNTER'' then ''${__COUNTER}''
             else (case map_of vars varName of
                     Some value \<Rightarrow> value
                   | None \<Rightarrow> match))"

text \<open>The extracted variables are replaced in the order of the list (the source ranges
  over a map).\<close>

definition ReplaceRuntimeVariables :: "string \<Rightarrow> int \<Rightarrow> int \<Rightarrow> (string \<times> any) list \<Rightarrow> string" where
  "ReplaceRuntimeVariables input vu iter extractedVars =
     (let r1 = ReplaceAll input ''${__VU}'' (show_int vu);
          r2 = ReplaceAll r1 ''${VU}'' (show_int vu);
          r3 = ReplaceAll r2 ''${__ITER}'' (show_int iter);
          r4 = ReplaceAll r3 ''${ITER}'' (show_int iter)
      in fold (\<lambda>(key, value) result. ReplaceAll result (''${'' @ key @ ''}'') (fmt_v value))
              extractedVars r4)"

section \<open>The scenario executor (package scenario)\<close>

record Assertion =
  assert_Type :: string
  Field :: string
  Operator :: string
  Value :: any

record LoadConfig =
  VUs :: int
  Duration :: string
  RPS :: int
  Iterations :: int

datatype RequestNode =
  RequestNode (node_IR: IR) (Extract: "(string \<times> string) list") (Assert: "Assertion list")
              (Children: "RequestNode list") (Parallel: bool) (Condition: string)

record CompiledScenario =
  Load :: "LoadConfig option"
  Setup :: "IR list"
  Main :: "RequestNode list"
  Teardown :: "IR list"

record RequestResult =
  rr_URL :: string
  rr_Method :: string
  rr_Status :: int
  Latency :: int
  Size :: int
  rr_Error :: string
  AssertionsFailed :: int

record IterationResult =
  IterationNum :: int
  Requests :: "RequestResult list"

record VUResult =
  VUID :: int
  vu_Iterations :: "IterationResult list"

text \<open>\<^verbatim>\<open>strings.Split\<close> with a separator that is not empty.\<close>

fun break_at :: "string \<Rightarrow> string \<Rightarrow> (string \<times> string) option" where
  "break_at [] sep = None"
| "break_at (c # cs) sep =
     (if HasPrefix (c # cs) sep then Some ([], drop (length sep) (c # cs))
      else (case break_at cs sep of None \<Rightarrow> None | Some (b, a) \<Rightarrow> Some (c # b, a)))"

lemma break_at_shorter:
  "break_at s sep = Some (b, a) \<Longrightarrow> sep \<noteq> [] \<Longrightarrow> length a < length s"
  by (induction s arbitrary: b) (auto split: if_splits option.splits)

function Split :: "string \<Rightarrow> string \<Rightarrow> string list" where
  "Split s sep =
     (if sep = [] then [s]
      else (case break_at s sep of None \<Rightarrow> [s] | Some (b, a) \<Rightarrow> b # Split a sep))"
  by pat_completeness auto
termination
  by (relation "measure (\<lambda>(s, sep). length s)") (auto dest: break_at_shorter)

declare Split.simps [simp del]

definition extractJSONPath :: "any \<Rightarrow> string \<Rightarrow> any" where
  "extractJSONPath body path =
     (case body of
        Obj bodyMap \<Rightarrow>
          (case fold (\<lambda>part current.
                        case current of
                          Some (Obj m) \<Rightarrow> Some (case map_of m part of None \<Rightarrow> Null | Some v \<Rightarrow> v)
                        | _ \<Rightarrow> None)
                     (Split (TrimPrefix path ''$.'') ''.'') (Some body) of
             None \<Rightarrow> Null
           | Some v \<Rightarrow> v)
      | _ \<Rightarrow> Null)"

text \<open>\<^verbatim>\<open>regexp.MustCompile\<close> panics on a pattern that does not compile, and so does
  reading the load configuration of a scenario that has none.\<close>

datatype panic = RegexpCompile string | NilDereference

definition extractRegex :: "world \<Rightarrow> any \<Rightarrow> string \<Rightarrow> panic + string" where
  "extractRegex w body pattern =
     (case FindStringSubmatch w pattern (fmt_v body) of
        None \<Rightarrow> Inl (RegexpCompile pattern)
      | Some matches \<Rightarrow> Inr (if length matches > 1 then matches ! 1 else []))"

definition extract_rule ::
  "world \<Rightarrow> EvaluationContext \<Rightarrow> string \<times> string \<Rightarrow> (string \<times> any) list \<Rightarrow> panic + (string \<times> any) list" where
  "extract_rule w execCtx vr extracted =
     (let (varName, rule) = vr;
          e1 = (if HasPrefix rule ''$.'' then
                  (let value = extractJSONPath (resp_Body (ctx_Response execCtx)) rule
                   in if value \<noteq> Null then AList.update varName value extracted else extracted)
                else extracted)
      in case (if HasPrefix rule ''regex:'' then
                 (case extractRegex w (resp_Body (ctx_Response execCtx)) (TrimPrefix rule ''regex:'') of
                    Inl p \<Rightarrow> Inl p
                  | Inr value \<Rightarrow>
                      Inr (if value \<noteq> [] then AList.update varName (Str value) e1 else e1))
               else Inr e1) of
           Inl p \<Rightarrow> Inl p
         | Inr e2 \<Rightarrow>
             Inr (if HasPrefix rule ''header:'' then
                    (case map_of (resp_Headers (ctx_Response execCtx)) (TrimPrefix rule ''header:'') of
                       Some value \<Rightarrow> AList.update varName (Str value) e2
                     | None \<Rightarrow> e2)
                  else e2))"

fun extractVariables ::
  "world \<Rightarrow> EvaluationContext \<Rightarrow> (string \<times> string) list \<Rightarrow> (string \<times> any) list \<Rightarrow> panic + (string \<times> any) list" where
  "extractVariables w execCtx [] extracted = Inr extracted"
| "extractVariables w execCtx (vr # rules) extracted =
     (case extract_rule w execCtx vr extracted of
        Inl p \<Rightarrow> Inl p
      | Inr e \<Rightarrow> extractVariables w execCtx rules e)"

definition evaluateCondition :: "string \<Rightarrow> (string \<times> any) list \<Rightarrow> bool" where
  "evaluateCondition condition vars =
     (let c = fold (\<lambda>(k, v) cond. ReplaceAll cond (''${'' @ k @ ''}'') (fmt_v v)) vars condition
      in if Contains c ''=='' then
           (case Split c ''=='' of
              [l, r] \<Rightarrow> TrimSpace l = TrimSpace r
            | _ \<Rightarrow> True)
         else True)"

definition compareValues :: "string \<Rightarrow> string \<Rightarrow> string \<Rightarrow> bool" where
  "compareValues actual operator expected =
     (let a = TrimSpace actual; e = TrimSpace expected
      in if operator = ''=='' then a = e
         else if operator = ''!='' then a \<noteq> e
         else if operator = ''contains'' then Contains a e
         else True)"

text \<open>Go's integer division truncates towards zero.\<close>

definition go_div :: "int \<Rightarrow> int \<Rightarrow> int" where
  "go_div a b = sgn a * sgn b * (\<bar>a\<bar> div \<bar>b\<bar>)"

definition go_mod :: "int \<Rightarrow> int \<Rightarrow> int" where
  "go_mod a b = a - b * go_div a b"

definition parseLatency :: "world \<Rightarrow> string \<Rightarrow> real" where
  "parseLatency w s =
     real_of_int (go_div (case ParseDuration w s of None \<Rightarrow> 0 | Some d \<Rightarrow> d) 1000000)"

text \<open>\<^verbatim>\<open>fmt.Sprintf("%f", x)\<close>, with \<^verbatim>\<open>float64\<close> taken as the real numbers: six decimals.\<close>

definition fmt_f :: "real \<Rightarrow> string" where
  "fmt_f x =
     (let scaled = nat (round (\<bar>x\<bar> * 1000000));
          frac = show_nat (scaled mod 1000000)
      in (if x < 0 \<and> scaled \<noteq> 0 then ''-'' else []) @ show_nat (scaled div 1000000) @ ''.'' @
         replicate (6 - length frac) (CHR ''0'') @ frac)"

definition checkAssertion :: "world \<Rightarrow> Assertion \<Rightarrow> EvaluationContext \<Rightarrow> bool" where
  "checkAssertion w assertion execCtx =
     (if assert_Type assertion = ''status'' then
        compareValues (show_int (Status (ctx_Response execCtx))) (Operator assertion)
                      (fmt_v (Value assertion))
      else if assert_Type assertion = ''latency'' then
        compareValues (fmt_f (LatencyMs (ctx_Response execCtx))) (Operator assertion)
                      (fmt_f (parseLatency w (fmt_v (Value assertion))))
      else if assert_Type assertion = ''body'' then
        compareValues
          (fmt_v (extractJSONPath (resp_Body (ctx_Response execCtx))
                    (''$.'' @ TrimPrefix (Field assertion) ''body.'')))
          (Operator assertion) (fmt_v (Value assertion))
      else True)"

text \<open>
  The deep clone through JSON gives the record back; then the runtime variables are
  replaced in the URL, the header values and the body.
\<close>

definition cloneIRWithVars :: "world \<Rightarrow> IR \<Rightarrow> int \<Rightarrow> int \<Rightarrow> (string \<times> any) list \<Rightarrow> IR" where
  "cloneIRWithVars w spec vu iter vars =
     (let r0 = Request spec;
          r1 = r0\<lparr>URL := ReplaceRuntimeVariables (URL r0) vu iter vars\<rparr>;
          r2 = r1\<lparr>Headers := map (\<lambda>(k, v). (k, ReplaceRuntimeVariables v vu iter vars)) (Headers r1)\<rparr>;
          r3 = (case Body r2 of
                  None \<Rightarrow> r2
                | Some b \<Rightarrow>
                    if Type b = ''json'' then
                      r2\<lparr>Body := Some (b\<lparr>Content :=
                             (case json_Unmarshal w
                                     (ReplaceRuntimeVariables (json_Marshal w (Content b)) vu iter vars) of
                                Some newContent \<Rightarrow> newContent
                              | None \<Rightarrow> Null)\<rparr>)\<rparr>
                    else if Type b = ''text'' then
                      (case Content b of
                         Str str \<Rightarrow>
                           r2\<lparr>Body := Some (b\<lparr>Content := Str (ReplaceRuntimeVariables str vu iter vars)\<rparr>)\<rparr>
                       | _ \<Rightarrow> r2)
                    else r2)
      in spec\<lparr>Request := r3\<rparr>)"

definition check_assertions ::
  "world \<Rightarrow> Assertion list \<Rightarrow> EvaluationContext \<Rightarrow> RequestResult \<Rightarrow> RequestResult" where
  "check_assertions w asserts execCtx reqResult =
     fold (\<lambda>assertion rr.
             if \<not> checkAssertion w assertion execCtx then
               rr\<lparr>AssertionsFailed := AssertionsFailed rr + 1,
                  rr_Error := ''assertion failed: '' @ Field assertion @ '' '' @
                              Operator assertion @ '' '' @ fmt_v (Value assertion)\<rparr>
             else rr)
          asserts reqResult"

definition go_trunc :: "real \<Rightarrow> int" where
  "go_trunc x = (if x < 0 then \<lceil>x\<rceil> else \<lfloor>x\<rfloor>)"

text \<open>
  What a walk of the request tree reads and writes: the HTTP executor of the scenario
  executor, the variable map of the iteration and the request results of the iteration.
  The children of a parallel node run as goroutines over the same three; the model runs
  them in the order of the list, which is one of their schedules. The think time is a
  sleep and is left out.
\<close>

record exec_state =
  httpExecutor :: Executor
  vars :: "(string \<times> any) list"
  requests :: "RequestResult list"

fun executeNode :: "world \<Rightarrow> RequestNode \<Rightarrow> int \<Rightarrow> int \<Rightarrow> exec_state \<Rightarrow> panic + exec_state"
and executeNodes :: "world \<Rightarrow> RequestNode list \<Rightarrow> int \<Rightarrow> int \<Rightarrow> exec_state \<Rightarrow> panic + exec_state" where
  "executeNode w (RequestNode ir extract asserts children parallel condition) vu iter st =
     (if condition \<noteq> [] \<and> \<not> evaluateCondition condition (vars st) then Inr st
      else
        (let spec = cloneIRWithVars w ir vu iter (vars st);
             reqResult = \<lparr>rr_URL = URL (Request spec), rr_Method = Method (Request spec),
                          rr_Status = 0, Latency = 0, Size = 0, rr_Error = [],
                          AssertionsFailed = 0\<rparr>
         in case Execute w (httpExecutor st) spec of
              (Inl err, spec', ex) \<Rightarrow>
                Inr (st\<lparr>httpExecutor := ex,
                        requests := requests st @ [reqResult\<lparr>rr_Error := err\<rparr>]\<rparr>)
            | (Inr execCtx, spec', ex) \<Rightarrow>
                (let rr = check_assertions w asserts execCtx
                            (reqResult\<lparr>rr_Status := Status (ctx_Response execCtx),
                                       Latency := go_trunc (LatencyMs (ctx_Response execCtx) * 1000000),
                                       Size := SizeBytes (ctx_Response execCtx)\<rparr>)
                 in case (if extract \<noteq> [] then extractVariables w execCtx extract [] else Inr []) of
                      Inl p \<Rightarrow> Inl p
                    | Inr extracted \<Rightarrow>
                        executeNodes w children vu iter
                          (st\<lparr>httpExecutor := ex,
                              vars := fold (\<lambda>(k, v). AList.update k v) extracted (vars st),
                              requests := requests st @ [rr]\<rparr>))))"
| "executeNodes w [] vu iter st = Inr st"
| "executeNodes w (node # nodes) vu iter st =
     (case executeNode w node vu iter st of
        Inl p \<Rightarrow> Inl p
      | Inr st' \<Rightarrow> executeNodes w nodes vu iter st')"

definition executeIteration ::
  "world \<Rightarrow> CompiledScenario \<Rightarrow> int \<Rightarrow> int \<Rightarrow> (string \<times> any) list \<Rightarrow> Executor \<Rightarrow>
     panic + (IterationResult \<times> Executor)" where
  "executeIteration w scenario vu iter setupVars ex =
     (case executeNodes w (Main scenario) vu iter
             \<lparr>httpExecutor = ex,
              vars = fold (\<lambda>(k, v). AList.update k v) setupVars [],
              requests = []\<rparr> of
        Inl p \<Rightarrow> Inl p
      | Inr st \<Rightarrow> Inr (\<lparr>IterationNum = iter, Requests = requests st\<rparr>, httpExecutor st))"

text \<open>
  The scenario executor owns one HTTP executor, and with it one cookie jar, for the whole
  run (\<^verbatim>\<open>NewExecutor\<close> of package scenario).
\<close>

record scenario_Executor =
  sc_httpExecutor :: Executor

definition scenario_NewExecutor :: scenario_Executor where
  "scenario_NewExecutor = \<lparr>sc_httpExecutor = NewExecutor\<rparr>"

datatype load_mode = ModeVUs | ModeRPS | ModeIterations

definition select_mode :: "LoadConfig option \<Rightarrow> string + load_mode" where
  "select_mode l =
     (case l of
        None \<Rightarrow> Inl ''no load configuration specified''
      | Some load \<Rightarrow>
          if VUs load > 0 \<and> Duration load \<noteq> [] then Inr ModeVUs
          else if RPS load > 0 then Inr ModeRPS
          else if Iterations load > 0 then Inr ModeIterations
          else Inl ''invalid load configuration'')"

text \<open>
  \<^verbatim>\<open>executeIterations\<close> starts one goroutine for each virtual user, with its identifier
  and its number of iterations: \<open>executeIterations_spawn\<close> lists them in the order of the
  loop. The model is of a run that is not cancelled, and runs the virtual users one after
  the other, in that order: one of the schedules of the goroutines. The source appends
  the result of a virtual user when its goroutine ends, so under another schedule the list
  of results is a permutation of the one computed here; what is said below of the order
  of the results is said of this schedule.
\<close>

definition executeIterations_spawn :: "LoadConfig \<Rightarrow> (int \<times> int) list" where
  "executeIterations_spawn load =
     (let vus = (if VUs load = 0 then 1 else VUs load);
          iterPerVU = go_div (Iterations load) vus;
          remainder = go_mod (Iterations load) vus
      in map (\<lambda>vu. (vu, if vu \<le> remainder then iterPerVU + 1 else iterPerVU)) [1..vus])"

fun run_iterations ::
  "world \<Rightarrow> CompiledScenario \<Rightarrow> int \<Rightarrow> int list \<Rightarrow> (string \<times> any) list \<Rightarrow>
     VUResult \<times> Executor \<Rightarrow> panic + (VUResult \<times> Executor)" where
  "run_iterations w scenario vuID [] setupVars acc = Inr acc"
| "run_iterations w scenario vuID (iter # iters) setupVars acc =
     (case executeIteration w scenario vuID iter setupVars (snd acc) of
        Inl p \<Rightarrow> Inl p
      | Inr (iterResult, ex) \<Rightarrow>
          run_iterations w scenario vuID iters setupVars
            ((fst acc)\<lparr>vu_Iterations := vu_Iterations (fst acc) @ [iterResult]\<rparr>, ex))"

fun run_vus ::
  "world \<Rightarrow> CompiledScenario \<Rightarrow> (int \<times> int) list \<Rightarrow> (string \<times> any) list \<Rightarrow>
     VUResult list \<times> scenario_Executor \<Rightarrow> panic + (VUResult list \<times> scenario_Executor)" where
  "run_vus w scenario [] setupVars acc = Inr acc"
| "run_vus w scenario ((vuID, maxIter) # rest) setupVars acc =
     (case run_iterations w scenario vuID [1..maxIter] setupVars
             (\<lparr>VUID = vuID, vu_Iterations = []\<rparr>, sc_httpExecutor (snd acc)) of
        Inl p \<Rightarrow> Inl p
      | Inr (vuResult, ex) \<Rightarrow>
          run_vus w scenario rest setupVars
            (fst acc @ [vuResult], (snd acc)\<lparr>sc_httpExecutor := ex\<rparr>))"

definition executeIterations ::
  "world \<Rightarrow> scenario_Executor \<Rightarrow> CompiledScenario \<Rightarrow> (string \<times> any) list \<Rightarrow>
     panic + (VUResult list \<times> scenario_Executor)" where
  "executeIterations w e scenario setupVars =
     (case Load scenario of
        None \<Rightarrow> Inl NilDereference
      | Some load \<Rightarrow> run_vus w scenario (executeIterations_spawn load) setupVars ([], e))"

section \<open>Example inputs\<close>

text \<open>
  A world in which every URL parses and every request can be created, given by what the
  server answers to the \<open>n\<close>-th request and what the \<open>n\<close>-th evaluator process does; no
  wait is cancelled.
\<close>

definition example_world ::
  "(nat \<Rightarrow> http_request \<Rightarrow> url_Error + http_response) \<Rightarrow> (nat \<Rightarrow> proc_outcome) \<Rightarrow> world" where
  "example_world server evaluator_process =
     \<lparr>url_with_query = (\<lambda>u q. Inr u), NewRequest_err = (\<lambda>m u. None),
      client_Do = server, elapsed_us = (\<lambda>n. 1500),
      json_Unmarshal = (\<lambda>s. None), json_Marshal = (\<lambda>v. []),
      LookPath_mojo = False, cmd_Run = (\<lambda>n cmd c. evaluator_process n),
      ctx_Done = (\<lambda>n. None), FindStringSubmatch = (\<lambda>p s. Some []),
      ParseDuration = (\<lambda>s. None), base64 = (\<lambda>s. s)\<rparr>"

definition get_request :: "string \<Rightarrow> IR" where
  "get_request url =
     \<lparr>Request = \<lparr>Method = ''GET'', URL = url, Query = [], Headers = [], Cookies = [],
                  Body = None, Auth = None\<rparr>,
      Evaluation = None\<rparr>"

definition answer :: "int \<Rightarrow> (string \<times> string list) list \<Rightarrow> string \<Rightarrow> url_Error + http_response" where
  "answer status headers body = Inr \<lparr>StatusCode = status, Header = headers, body_read = Inr body\<rparr>"

definition verdict :: "string \<Rightarrow> Actions option \<Rightarrow> proc_outcome" where
  "verdict d a = Output \<lparr>Decision = d, Reason = ''example'', Mutations = None, Actions = a\<rparr>"



definition world_branch :: world where
  "world_branch =
     example_world (\<lambda>n r. answer 200 [] ''ok'')
       (\<lambda>n. verdict ''branch'' (Some \<lparr>RetryAfterMs = 0, MaxRetries = 0, Goto = ''other''\<rparr>))"




text \<open>A server that cannot be reached, with an evaluator that answers \<open>fail\<close> and with one
  that answers \<open>retry\<close>.\<close>

definition world_unreachable_retry :: world where
  "world_unreachable_retry =
     example_world
       (\<lambda>n r. Inl \<lparr>Op = ''Get'', err_URL = hr_URL r, Err = ''dial tcp: connection refused''\<rparr>)
       (\<lambda>n. verdict ''retry'' None)"

definition world_unreachable :: world where
  "world_unreachable =
     example_world
       (\<lambda>n r. Inl \<lparr>Op = ''Get'', err_URL = hr_URL r, Err = ''dial tcp: connection refused''\<rparr>)
       (\<lambda>n. verdict ''fail'' None)"

text \<open>A server that sets a session cookie only when it answers the request of virtual
  user 1, and a scenario of one request, whose URL names the virtual user that sends it.\<close>

definition world_session_cookie :: world where
  "world_session_cookie =
     example_world
       (\<lambda>n r. if hr_URL r = ''http://h.test/user/1''
              then answer 200 [(''Set-Cookie'', [''sid=abc''])] ''ok''
              else answer 200 [] ''ok'')
       (\<lambda>n. verdict ''pass'' None)"

definition scenario_two_users :: CompiledScenario where
  "scenario_two_users =
     \<lparr>Load = Some \<lparr>VUs = 2, Duration = [], RPS = 0, Iterations = 2\<rparr>,
      Setup = [],
      Main = [RequestNode (get_request ''http://h.test/user/${VU}'') [] [] [] False []],
      Teardown = []\<rparr>"

text \<open>A server that answers with the cookie \<^verbatim>\<open>feature=true\<close>, and the request \<^verbatim>\<open>probe\<close>
  with the extraction \<^verbatim>\<open>enabled = cookie:feature\<close>.\<close>

definition world_feature_cookie :: world where
  "world_feature_cookie =
     example_world (\<lambda>n r. answer 200 [(''Set-Cookie'', [''feature=true''])] ''ok'')
       (\<lambda>n. verdict ''pass'' None)"

definition probe :: RequestNode where
  "probe = RequestNode (get_request ''http://h.test/probe'') [(''enabled'', ''cookie:feature'')]
             [] [] False []"

definition status_context :: "int \<Rightarrow> EvaluationContext" where
  "status_context st =
     \<lparr>ctx_IR = get_request ''http://h.test/a'',
      ctx_Request = \<lparr>xr_Method = ''GET'', xr_URL = ''http://h.test/a'', xr_Headers = [],
                     xr_Body = Null\<rparr>,
      ctx_Response = \<lparr>Status = st, resp_Headers = [], resp_Body = Str ''x'', LatencyMs = 3 / 2,
                      SizeBytes = 1, resp_Error = []\<rparr>,
      ctx_Vars = []\<rparr>"

section \<open>Properties of the retry loop\<close>

subsection \<open>Auxiliary facts\<close>

lemma Execute_sends_once:
  assumes "Execute w e ir = (Inr ctx, ir', e')"
  shows "length (http_calls e') = Suc (length (http_calls e))"
  using assms
  by (auto simp: Execute_def Let_def split: prod.splits sum.splits option.splits if_splits)

lemma Evaluate_logs_call:
  assumes "Evaluate w m c t p = (r, m')"
  shows "eval_calls m' = eval_calls m @ [(c, t, p)]"
  using assms
  by (auto simp: Evaluate_def Let_def split: option.splits proc_outcome.splits)

lemma createCommand_supported:
  assumes "t \<in> set [''bun'', ''python'', ''go'']"
  shows "\<exists>cmd. createCommand w t p = Some cmd"
  using assms by (auto simp: createCommand_def)

lemma process_prints_Evaluate:
  assumes "process_prints w (length (eval_calls m)) ir ctx P"
    and "\<And>d. P d \<Longrightarrow> validateDecision d = None"
  shows "\<exists>d. P d \<and>
           Evaluate w m ctx (evalType_of ir) (evalPath_of ir) =
             (Inr d, m\<lparr>eval_calls := eval_calls m @ [(ctx, evalType_of ir, evalPath_of ir)]\<rparr>)"
proof -
  from assms(1) obtain cmd where
    cmd: "createCommand w (evalType_of ir) (evalPath_of ir) = Some cmd"
    using createCommand_supported [of "evalType_of ir" w "evalPath_of ir"]
    by (auto simp: process_prints_def)
  with assms(1) obtain d where
    d: "cmd_Run w (length (eval_calls m)) cmd ctx = Output d" "P d"
    by (auto simp: process_prints_def split: proc_outcome.splits)
  from assms(2) [OF d(2)] cmd d show ?thesis
    by (auto simp: Evaluate_def Let_def)
qed

lemma retry_answer_valid: "retry_answer w n d \<Longrightarrow> validateDecision d = None"
  by (auto simp: retry_answer_def validateDecision_def split: option.splits)

lemma fail_valid: "Decision d = ''fail'' \<Longrightarrow> validateDecision d = None"
  by (simp add: validateDecision_def)

lemma handle_decision_retry_answer:
  assumes "retry_answer w n d"
  shows "\<exists>s'. handle_decision w n s d = Continue s' \<and> orch s' = orch s \<and> result s' = result s"
  using assms
  by (auto simp: handle_decision_def retry_answer_def Let_def split: option.splits if_splits)


lemma handle_decision_fail:
  assumes "Decision d = ''fail''"
  shows "handle_decision w n s d =
           Return (s\<lparr>result := (result s)\<lparr>res_Error := Some (''evaluation failed: '' @ Reason d)\<rparr>\<rparr>)
                  (Some (''evaluation failed: '' @ Reason d))"
  using assms by (simp add: handle_decision_def Let_def)

text \<open>A round in which the request is sent and the evaluator process prints a valid
  verdict hands that verdict, recorded with the context, to the handling of verdicts.\<close>

lemma attempt_body_verdict:
  assumes ex: "Execute w (executor (orch s)) (set_attempt a (irSpec s)) = (Inr ctx, ir2, ex)"
    and pr: "process_prints w (length (eval_calls (evaluator (orch s)))) ir2 ctx P"
    and valid: "\<And>d. P d \<Longrightarrow> validateDecision d = None"
  shows "\<exists>d mid. P d
           \<and> attempt_body w s a = handle_decision w (length (eval_calls (evaluator (orch s)))) mid d
           \<and> maxRetries (orch mid) = maxRetries (orch s)
           \<and> length (http_calls (executor (orch mid))) = Suc (length (http_calls (executor (orch s))))
           \<and> eval_calls (evaluator (orch mid)) =
               eval_calls (evaluator (orch s)) @ [(ctx, evalType_of ir2, evalPath_of ir2)]
           \<and> Attempt (result mid) = a
           \<and> res_Context (result mid) = Some ctx
           \<and> res_Decision (result mid) = Some d"
proof -
  from process_prints_Evaluate [OF pr valid] obtain d where
    d: "P d" and ev: "Evaluate w (evaluator (orch s)) ctx (evalType_of ir2) (evalPath_of ir2) =
      (Inr d, (evaluator (orch s))\<lparr>eval_calls := eval_calls (evaluator (orch s)) @
                                      [(ctx, evalType_of ir2, evalPath_of ir2)]\<rparr>)"
    by blast
  define mid where "mid = s\<lparr>orch := (orch s)\<lparr>executor := ex,
        evaluator := (evaluator (orch s))\<lparr>eval_calls := eval_calls (evaluator (orch s)) @
                                      [(ctx, evalType_of ir2, evalPath_of ir2)]\<rparr>\<rparr>,
      irSpec := ir2,
      result := (result s)\<lparr>Attempt := a, res_Context := Some ctx, res_Decision := Some d\<rparr>\<rparr>"
  have "attempt_body w s a = handle_decision w (length (eval_calls (evaluator (orch s)))) mid d"
    using ex ev by (simp add: attempt_body_def Let_def mid_def)
  moreover have "length (http_calls ex) = Suc (length (http_calls (executor (orch s))))"
    using ex Execute_sends_once by blast
  ultimately show ?thesis using d by (intro exI [of _ d] exI [of _ mid]) (simp add: mid_def)
qed










lemma handle_decision_evaluator:
  "evaluator (orch (outcome_state (handle_decision w n s d))) = evaluator (orch s)"
  by (auto simp: handle_decision_def Let_def split: option.splits)

lemma Execute_transport_error:
  assumes "buildRequest w spec = (ir2, Inr req0)"
    and "client_Do w (length (http_calls e)) (add_jar_cookies e req0) = Inl uerr"
  shows "\<exists>ctx. Execute w e spec = (Inr ctx, ir2, e\<lparr>http_calls := http_calls e @ [add_jar_cookies e req0]\<rparr>)
             \<and> Status (ctx_Response ctx) = 0
             \<and> resp_Error (ctx_Response ctx) = url_Error_msg uerr"
  using assms by (simp add: Execute_def Let_def)

lemma url_Error_msg_nonempty: "url_Error_msg e \<noteq> []"
  by (simp add: url_Error_msg_def)

lemma attempt_body_evaluates:
  assumes "Execute w (executor (orch s)) (set_attempt attempt (irSpec s)) = (Inr ctx, ir2, ex)"
  shows "eval_calls (evaluator (orch (outcome_state (attempt_body w s attempt)))) =
           eval_calls (evaluator (orch s)) @ [(ctx, evalType_of ir2, evalPath_of ir2)]"
proof -
  obtain q m where ev:
    "Evaluate w (evaluator (orch s)) ctx (evalType_of ir2) (evalPath_of ir2) = (q, m)"
    by (cases "Evaluate w (evaluator (orch s)) ctx (evalType_of ir2) (evalPath_of ir2)") auto
  have "eval_calls m = eval_calls (evaluator (orch s)) @ [(ctx, evalType_of ir2, evalPath_of ir2)]"
    using ev by (rule Evaluate_logs_call)
  then show ?thesis
    using assms ev by (simp add: attempt_body_def Let_def handle_decision_evaluator)
qed

lemma pair_Inr:
  assumes "case snd E of Inl e \<Rightarrow> False | Inr c \<Rightarrow> True"
  shows "E = (fst E, Inr (projr (snd E)))"
  using assms by (cases E; cases "snd E") auto

subsection \<open>Fallback to the default evaluator\<close>



subsection \<open>Transport failures\<close>

text \<open>
  Claim C8. When the request can be built and the transport fails before any response,
  the HTTP executor returns an evaluation context, not an error; the status of its
  response is 0 and its error string is not empty. In the retry loop the evaluator is then
  run on that very context and decides the round: the round adds the context to the calls
  of the gateway, and the verdict that the evaluator process prints on it, recorded with
  the context on the result, ends the call without error when it is \<open>pass\<close>, ends it with
  \<open>evaluation failed: <reason>\<close> when it is \<open>fail\<close>, and leads to the next attempt when it
  is \<open>retry\<close> (with no override, and no wait cancelled).
\<close>

theorem transport_failure_is_evaluated:
  assumes "buildRequest w spec = (ir2, Inr req0)"
    and "client_Do w (length (http_calls e)) (add_jar_cookies e req0) = Inl uerr"
  shows "\<exists>ctx e'. Execute w e spec = (Inr ctx, ir2, e')
           \<and> Status (ctx_Response ctx) = 0
           \<and> resp_Error (ctx_Response ctx) \<noteq> []
           \<and> (\<forall>s attempt. executor (orch s) = e \<and> set_attempt attempt (irSpec s) = spec \<longrightarrow>
                  eval_calls (evaluator (orch (outcome_state (attempt_body w s attempt)))) =
                    eval_calls (evaluator (orch s)) @ [(ctx, evalType_of ir2, evalPath_of ir2)]
                \<and> (\<forall>d. process_prints w (length (eval_calls (evaluator (orch s)))) ir2 ctx
                            (\<lambda>x. x = d) \<longrightarrow>
                      (Decision d = ''pass'' \<longrightarrow>
                         (\<exists>s'. attempt_body w s attempt = Return s' None
                              \<and> res_Context (result s') = Some ctx
                              \<and> res_Decision (result s') = Some d))
                    \<and> (Decision d = ''fail'' \<longrightarrow>
                         (\<exists>s'. attempt_body w s attempt =
                                  Return s' (Some (''evaluation failed: '' @ Reason d))
                              \<and> res_Context (result s') = Some ctx
                              \<and> res_Decision (result s') = Some d
                              \<and> res_Error (result s') = Some (''evaluation failed: '' @ Reason d)))
                    \<and> (retry_answer w (length (eval_calls (evaluator (orch s)))) d \<longrightarrow>
                         (\<exists>s'. attempt_body w s attempt = Continue s'
                              \<and> res_Context (result s') = Some ctx
                              \<and> res_Decision (result s') = Some d
                              \<and> (attempt \<le> maxRetries (orch s) \<longrightarrow>
                                   (\<forall>fuel. ExecuteOne_loop (Suc fuel) w s attempt =
                                            ExecuteOne_loop fuel w s' (attempt + 1)))))))"
proof -
  from Execute_transport_error [OF assms] obtain ctx where
    ex: "Execute w e spec = (Inr ctx, ir2, e\<lparr>http_calls := http_calls e @ [add_jar_cookies e req0]\<rparr>)"
    and st: "Status (ctx_Response ctx) = 0"
    and er: "resp_Error (ctx_Response ctx) = url_Error_msg uerr"
    by blast
  let ?e' = "e\<lparr>http_calls := http_calls e @ [add_jar_cookies e req0]\<rparr>"
  have round: "eval_calls (evaluator (orch (outcome_state (attempt_body w s attempt)))) =
                 eval_calls (evaluator (orch s)) @ [(ctx, evalType_of ir2, evalPath_of ir2)]
             \<and> (\<forall>d. process_prints w (length (eval_calls (evaluator (orch s)))) ir2 ctx
                         (\<lambda>x. x = d) \<longrightarrow>
                   (Decision d = ''pass'' \<longrightarrow>
                      (\<exists>s'. attempt_body w s attempt = Return s' None
                           \<and> res_Context (result s') = Some ctx
                           \<and> res_Decision (result s') = Some d))
                 \<and> (Decision d = ''fail'' \<longrightarrow>
                      (\<exists>s'. attempt_body w s attempt =
                               Return s' (Some (''evaluation failed: '' @ Reason d))
                           \<and> res_Context (result s') = Some ctx
                           \<and> res_Decision (result s') = Some d
                           \<and> res_Error (result s') = Some (''evaluation failed: '' @ Reason d)))
                 \<and> (retry_answer w (length (eval_calls (evaluator (orch s)))) d \<longrightarrow>
                      (\<exists>s'. attempt_body w s attempt = Continue s'
                           \<and> res_Context (result s') = Some ctx
                           \<and> res_Decision (result s') = Some d
                           \<and> (attempt \<le> maxRetries (orch s) \<longrightarrow>
                                (\<forall>fuel. ExecuteOne_loop (Suc fuel) w s attempt =
                                         ExecuteOne_loop fuel w s' (attempt + 1))))))"
    if s: "executor (orch s) = e" "set_attempt attempt (irSpec s) = spec" for s attempt
  proof -
    have ex': "Execute w (executor (orch s)) (set_attempt attempt (irSpec s)) = (Inr ctx, ir2, ?e')"
      using ex s by simp
    have calls: "eval_calls (evaluator (orch (outcome_state (attempt_body w s attempt)))) =
                 eval_calls (evaluator (orch s)) @ [(ctx, evalType_of ir2, evalPath_of ir2)]"
      using ex' by (rule attempt_body_evaluates)
    have verdict: "(Decision d = ''pass'' \<longrightarrow>
                      (\<exists>s'. attempt_body w s attempt = Return s' None
                           \<and> res_Context (result s') = Some ctx
                           \<and> res_Decision (result s') = Some d))
                 \<and> (Decision d = ''fail'' \<longrightarrow>
                      (\<exists>s'. attempt_body w s attempt =
                               Return s' (Some (''evaluation failed: '' @ Reason d))
                           \<and> res_Context (result s') = Some ctx
                           \<and> res_Decision (result s') = Some d
                           \<and> res_Error (result s') = Some (''evaluation failed: '' @ Reason d)))
                 \<and> (retry_answer w (length (eval_calls (evaluator (orch s)))) d \<longrightarrow>
                      (\<exists>s'. attempt_body w s attempt = Continue s'
                           \<and> res_Context (result s') = Some ctx
                           \<and> res_Decision (result s') = Some d
                           \<and> (attempt \<le> maxRetries (orch s) \<longrightarrow>
                                (\<forall>fuel. ExecuteOne_loop (Suc fuel) w s attempt =
                                         ExecuteOne_loop fuel w s' (attempt + 1)))))"
      if pr: "process_prints w (length (eval_calls (evaluator (orch s)))) ir2 ctx (\<lambda>x. x = d)"
      for d
    proof -
      let ?n = "length (eval_calls (evaluator (orch s)))"
      have handled: "\<exists>mid. attempt_body w s attempt = handle_decision w ?n mid d
                        \<and> res_Context (result mid) = Some ctx
                        \<and> res_Decision (result mid) = Some d"
        if "validateDecision d = None"
      proof -
        have v: "\<And>x. x = d \<Longrightarrow> validateDecision x = None" using that by simp
        from attempt_body_verdict [OF ex' pr v] show ?thesis by blast
      qed
      have p: "\<exists>s'. attempt_body w s attempt = Return s' None
                   \<and> res_Context (result s') = Some ctx
                   \<and> res_Decision (result s') = Some d"
        if "Decision d = ''pass''"
      proof -
        have "validateDecision d = None" using that by (simp add: validateDecision_def)
        from handled [OF this] that show ?thesis
          by (auto simp: handle_decision_def)
      qed
      have f: "\<exists>s'. attempt_body w s attempt =
                       Return s' (Some (''evaluation failed: '' @ Reason d))
                   \<and> res_Context (result s') = Some ctx
                   \<and> res_Decision (result s') = Some d
                   \<and> res_Error (result s') = Some (''evaluation failed: '' @ Reason d)"
        if "Decision d = ''fail''"
      proof -
        from handled [OF fail_valid [OF that]] handle_decision_fail [OF that]
        show ?thesis by auto
      qed
      have r: "\<exists>s'. attempt_body w s attempt = Continue s'
                   \<and> res_Context (result s') = Some ctx
                   \<and> res_Decision (result s') = Some d
                   \<and> (attempt \<le> maxRetries (orch s) \<longrightarrow>
                        (\<forall>fuel. ExecuteOne_loop (Suc fuel) w s attempt =
                                 ExecuteOne_loop fuel w s' (attempt + 1)))"
        if ra: "retry_answer w ?n d"
      proof -
        from handled [OF retry_answer_valid [OF ra]] obtain mid where
          mid: "attempt_body w s attempt = handle_decision w ?n mid d"
            "res_Context (result mid) = Some ctx" "res_Decision (result mid) = Some d"
          by blast
        from handle_decision_retry_answer [OF ra, of mid] obtain s' where
          "handle_decision w ?n mid d = Continue s'" "result s' = result mid"
          by blast
        with mid show ?thesis by auto
      qed
      from p f r show ?thesis by blast
    qed
    from calls verdict show ?thesis by blast
  qed
  from ex st er url_Error_msg_nonempty [of uerr] round show ?thesis
    by (intro exI [of _ ctx] exI [of _ ?e']) simp
qed

theorem transport_failure_is_evaluated_witness:
  "(\<exists>ctx s'. attempt_body world_unreachable
                (initial_state (NewOrchestrator 3) (get_request ''http://h.test/a'')) 1 =
                Return s' (Some ''evaluation failed: example'')
            \<and> res_Context (result s') = Some ctx
            \<and> Status (ctx_Response ctx) = 0
            \<and> resp_Error (ctx_Response ctx) \<noteq> []
            \<and> map fst (eval_calls (evaluator (orch s'))) = [ctx])
   \<and> (\<exists>ctx s'. attempt_body world_unreachable_retry
                (initial_state (NewOrchestrator 3) (get_request ''http://h.test/a'')) 1 =
                Continue s'
            \<and> res_Context (result s') = Some ctx
            \<and> Status (ctx_Response ctx) = 0
            \<and> resp_Error (ctx_Response ctx) \<noteq> []
            \<and> map_option Decision (res_Decision (result s')) = Some ''retry'')"
proof -
  let ?spec = "set_attempt 1 (get_request ''http://h.test/a'')"
  let ?s = "initial_state (NewOrchestrator 3) (get_request ''http://h.test/a'')"
  have s1: "executor (orch ?s) = NewExecutor" by code_simp
  have s2: "set_attempt 1 (irSpec ?s) = ?spec" by code_simp
  have s3: "eval_calls (evaluator (orch ?s)) = []" by code_simp
  have first: "\<exists>ctx s'. attempt_body world_unreachable ?s 1 =
                Return s' (Some ''evaluation failed: example'')
            \<and> res_Context (result s') = Some ctx
            \<and> Status (ctx_Response ctx) = 0
            \<and> resp_Error (ctx_Response ctx) \<noteq> []
            \<and> map fst (eval_calls (evaluator (orch s'))) = [ctx]"
  proof -
    let ?w = world_unreachable
    let ?B = "buildRequest ?w ?spec"
    let ?E = "Execute ?w NewExecutor ?spec"
    let ?d = "\<lparr>Decision = ''fail'', Reason = ''example'', Mutations = None, Actions = None\<rparr>"
    have "case snd ?B of Inl e \<Rightarrow> False | Inr c \<Rightarrow> True" by code_simp
    hence "?B = (fst ?B, Inr (projr (snd ?B)))" by (rule pair_Inr)
    moreover have "fst ?B = ?spec" by code_simp
    ultimately have h1: "?B = (?spec, Inr (projr (snd ?B)))" by simp
    have h2: "client_Do ?w (length (http_calls NewExecutor))
                (add_jar_cookies NewExecutor (projr (snd ?B))) =
              Inl \<lparr>Op = ''Get'', err_URL = ''http://h.test/a'', Err = ''dial tcp: connection refused''\<rparr>"
      by code_simp
    from transport_failure_is_evaluated [OF h1 h2] obtain ctx e' where
      E: "?E = (Inr ctx, ?spec, e')"
      and st: "Status (ctx_Response ctx) = 0" "resp_Error (ctx_Response ctx) \<noteq> []"
      and R: "\<forall>s attempt. executor (orch s) = NewExecutor \<and> set_attempt attempt (irSpec s) = ?spec \<longrightarrow>
                eval_calls (evaluator (orch (outcome_state (attempt_body ?w s attempt)))) =
                  eval_calls (evaluator (orch s)) @ [(ctx, evalType_of ?spec, evalPath_of ?spec)]
              \<and> (\<forall>d. process_prints ?w (length (eval_calls (evaluator (orch s)))) ?spec ctx
                          (\<lambda>x. x = d) \<longrightarrow>
                    (Decision d = ''fail'' \<longrightarrow>
                       (\<exists>s'. attempt_body ?w s attempt =
                                Return s' (Some (''evaluation failed: '' @ Reason d))
                            \<and> res_Context (result s') = Some ctx
                            \<and> res_Decision (result s') = Some d
                            \<and> res_Error (result s') = Some (''evaluation failed: '' @ Reason d))))"
      by blast
    have ctx: "ctx = projr (fst ?E)" unfolding E by simp
    have "process_prints ?w (length (eval_calls (evaluator (orch ?s)))) ?spec (projr (fst ?E))
            (\<lambda>x. x = ?d)"
      by code_simp
    hence pr: "process_prints ?w (length (eval_calls (evaluator (orch ?s)))) ?spec ctx (\<lambda>x. x = ?d)"
      unfolding ctx .
    note Rs = R [rule_format, OF conjI [OF s1 s2]]
    from Rs [THEN conjunct2, rule_format, OF pr] obtain s' where
      body: "attempt_body ?w ?s 1 = Return s' (Some (''evaluation failed: '' @ Reason ?d))"
      and rc: "res_Context (result s') = Some ctx"
      by auto
    have "eval_calls (evaluator (orch s')) = [(ctx, evalType_of ?spec, evalPath_of ?spec)]"
      using Rs [THEN conjunct1] body s3 by simp
    with body rc st show ?thesis by auto
  qed
  have second: "\<exists>ctx s'. attempt_body world_unreachable_retry ?s 1 = Continue s'
            \<and> res_Context (result s') = Some ctx
            \<and> Status (ctx_Response ctx) = 0
            \<and> resp_Error (ctx_Response ctx) \<noteq> []
            \<and> map_option Decision (res_Decision (result s')) = Some ''retry''"
  proof -
    let ?w = world_unreachable_retry
    let ?B = "buildRequest ?w ?spec"
    let ?E = "Execute ?w NewExecutor ?spec"
    let ?d = "\<lparr>Decision = ''retry'', Reason = ''example'', Mutations = None, Actions = None\<rparr>"
    have "case snd ?B of Inl e \<Rightarrow> False | Inr c \<Rightarrow> True" by code_simp
    hence "?B = (fst ?B, Inr (projr (snd ?B)))" by (rule pair_Inr)
    moreover have "fst ?B = ?spec" by code_simp
    ultimately have h1: "?B = (?spec, Inr (projr (snd ?B)))" by simp
    have h2: "client_Do ?w (length (http_calls NewExecutor))
                (add_jar_cookies NewExecutor (projr (snd ?B))) =
              Inl \<lparr>Op = ''Get'', err_URL = ''http://h.test/a'', Err = ''dial tcp: connection refused''\<rparr>"
      by code_simp
    from transport_failure_is_evaluated [OF h1 h2] obtain ctx e' where
      E: "?E = (Inr ctx, ?spec, e')"
      and st: "Status (ctx_Response ctx) = 0" "resp_Error (ctx_Response ctx) \<noteq> []"
      and R: "\<forall>s attempt. executor (orch s) = NewExecutor \<and> set_attempt attempt (irSpec s) = ?spec \<longrightarrow>
                (\<forall>d. process_prints ?w (length (eval_calls (evaluator (orch s)))) ?spec ctx
                          (\<lambda>x. x = d) \<longrightarrow>
                    (retry_answer ?w (length (eval_calls (evaluator (orch s)))) d \<longrightarrow>
                       (\<exists>s'. attempt_body ?w s attempt = Continue s'
                            \<and> res_Context (result s') = Some ctx
                            \<and> res_Decision (result s') = Some d)))"
      by blast
    have ctx: "ctx = projr (fst ?E)" unfolding E by simp
    have "process_prints ?w (length (eval_calls (evaluator (orch ?s)))) ?spec (projr (fst ?E))
            (\<lambda>x. x = ?d)"
      by code_simp
    hence pr: "process_prints ?w (length (eval_calls (evaluator (orch ?s)))) ?spec ctx (\<lambda>x. x = ?d)"
      unfolding ctx .
    have ra: "retry_answer ?w (length (eval_calls (evaluator (orch ?s)))) ?d"
      by (simp add: retry_answer_def)
    from R [rule_format, OF conjI [OF s1 s2] pr ra] st show ?thesis by auto
  qed
  from first second show ?thesis by (rule conjI)
qed

subsection \<open>Exhausting the retries\<close>




subsection \<open>The override of the bound\<close>




subsection \<open>Branch verdicts\<close>

text \<open>
  Claim C7. A branch verdict should be surfaced as a failure and should not be counted as
  a success. For a request whose evaluator answers \<open>branch\<close> with a target, the call
  returns the error \<open>branching not yet implemented\<close>, but it leaves the error of the result
  unset, unlike the returns for a \<open>fail\<close> verdict and for exhausted retries; \<open>Replay\<close>, which
  drops the returned error, therefore counts the result as one success and no failure.
\<close>

theorem branch_verdict_counted_as_success:
  "map_option snd (ExecuteOne 2 world_branch (NewOrchestrator 3) (get_request ''http://h.test/a'')) =
     Some (Some ''branching not yet implemented'')
   \<and> map_option (\<lambda>(results, stats, o2). (map res_Error results, Success stats, Failed stats))
        (Replay 2 world_branch (NewOrchestrator 3) [get_request ''http://h.test/a'']) =
     Some ([None], 1, 0)"
  by code_simp

section \<open>Properties of the scenario executor\<close>

subsection \<open>Auxiliary facts\<close>

lemma go_div_nonneg: "0 \<le> a \<Longrightarrow> 0 < b \<Longrightarrow> go_div a b = a div b"
  by (cases "a = 0") (simp_all add: go_div_def)

lemma go_mod_nonneg: "0 \<le> a \<Longrightarrow> 0 < b \<Longrightarrow> go_mod a b = a mod b"
  by (simp add: go_mod_def go_div_nonneg minus_mult_div_eq_mod)

lemma sum_with_extras:
  assumes "0 \<le> r"
  shows "sum_list (map (\<lambda>vu. if vu \<le> r then q + 1 else q) [1..int n]) = int n * q + min r (int n)"
proof (induction n)
  case 0
  then show ?case using assms by simp
next
  case (Suc n)
  have "[1..int (Suc n)] = [1..int n] @ [int n + 1]"
    by (simp add: upto_rec2 add.commute)
  then show ?case using Suc by (simp add: algebra_simps min_def)
qed

lemma run_iterations_count:
  assumes "run_iterations w sc vu iters sv acc = Inr acc'"
  shows "VUID (fst acc') = VUID (fst acc)
       \<and> length (vu_Iterations (fst acc')) = length (vu_Iterations (fst acc)) + length iters"
  using assms
  by (induction iters arbitrary: acc) (auto split: sum.splits prod.splits)

lemma run_vus_counts:
  assumes "run_vus w sc plan sv acc = Inr acc'" and "\<forall>(v, m) \<in> set plan. 0 \<le> m"
  shows "map (\<lambda>r. (VUID r, int (length (vu_Iterations r)))) (fst acc') =
           map (\<lambda>r. (VUID r, int (length (vu_Iterations r)))) (fst acc) @ plan"
  using assms
proof (induction plan arbitrary: acc)
  case Nil
  then show ?case by simp
next
  case (Cons p plan)
  obtain v m where p: "p = (v, m)" by (cases p)
  from Cons.prems(1) p obtain r ex where
    it: "run_iterations w sc v [1..m] sv (\<lparr>VUID = v, vu_Iterations = []\<rparr>, sc_httpExecutor (snd acc)) = Inr (r, ex)"
    and rest: "run_vus w sc plan sv (fst acc @ [r], (snd acc)\<lparr>sc_httpExecutor := ex\<rparr>) = Inr acc'"
    by (auto split: sum.splits prod.splits)
  from run_iterations_count [OF it] Cons.prems(2) p
  have r: "VUID r = v" "int (length (vu_Iterations r)) = m" by auto
  from Cons.IH [OF rest] Cons.prems(2) r p show ?case by simp
qed

lemma compareValues_other:
  "compareValues actual ''<'' expected" "compareValues actual ''<='' expected"
  "compareValues actual ''>'' expected" "compareValues actual ''>='' expected"
  "compareValues actual ''in'' expected"
  by (simp_all add: compareValues_def Let_def)

lemma sum_Inr:
  assumes "case x of Inl e \<Rightarrow> False | Inr c \<Rightarrow> True"
  shows "x = Inr (fst (projr x), snd (projr x))"
  using assms by (cases x) auto

subsection \<open>Distribution of the iterations\<close>

text \<open>
  Claim C9. For \<open>N > 0\<close> iterations and \<open>K \<ge> 1\<close> virtual users, the virtual users
  \<open>1, \<dots>, K\<close> are started with \<open>N div K\<close> iterations each, plus one for each of the first
  \<open>N mod K\<close> of them; the numbers add up to \<open>N\<close>; and in a run that is not cancelled every
  virtual user performs exactly the iterations it was started with.
\<close>

theorem iterations_distributed_evenly:
  assumes "0 < Iterations load" and "1 \<le> VUs load"
  shows "executeIterations_spawn load =
           map (\<lambda>vu. (vu, Iterations load div VUs load +
                           (if vu \<le> Iterations load mod VUs load then 1 else 0)))
               [1..VUs load]
       \<and> sum_list (map snd (executeIterations_spawn load)) = Iterations load
       \<and> (\<forall>w e scenario setupVars results e'.
             Load scenario = Some load \<and>
             executeIterations w e scenario setupVars = Inr (results, e') \<longrightarrow>
               map (\<lambda>r. (VUID r, int (length (vu_Iterations r)))) results =
                 executeIterations_spawn load)"
proof -
  let ?N = "Iterations load" and ?K = "VUs load"
  let ?q = "?N div ?K" and ?r = "?N mod ?K"
  have K: "0 < ?K" "?K \<noteq> 0" using assms(2) by auto
  have N: "0 \<le> ?N" using assms(1) by simp
  have spawn: "executeIterations_spawn load =
      map (\<lambda>vu. (vu, if vu \<le> ?r then ?q + 1 else ?q)) [1..?K]"
    using K by (simp add: executeIterations_spawn_def Let_def go_div_nonneg [OF N K(1)]
        go_mod_nonneg [OF N K(1)])
  have shape: "executeIterations_spawn load =
      map (\<lambda>vu. (vu, ?q + (if vu \<le> ?r then 1 else 0))) [1..?K]"
    unfolding spawn by (rule map_cong) auto
  have r: "0 \<le> ?r" "?r < ?K" using K by simp_all
  obtain n where n: "?K = int n" using K by (metis nat_0_le order_less_imp_le)
  have "sum_list (map snd (executeIterations_spawn load)) =
          sum_list (map (\<lambda>vu. if vu \<le> ?r then ?q + 1 else ?q) [1..?K])"
    unfolding spawn by (simp add: comp_def)
  also have "\<dots> = ?K * ?q + min ?r ?K"
    using sum_with_extras [OF r(1), of ?q n] n by simp
  also have "\<dots> = ?N" using r by (simp add: min_def)
  finally have total: "sum_list (map snd (executeIterations_spawn load)) = ?N" .
  have nonneg: "\<forall>(v, m) \<in> set (executeIterations_spawn load). 0 \<le> m"
    unfolding spawn using N K by (auto simp: pos_imp_zdiv_nonneg_iff)
  have run: "map (\<lambda>r. (VUID r, int (length (vu_Iterations r)))) results =
                 executeIterations_spawn load"
    if "Load scenario = Some load"
      and "executeIterations w e scenario setupVars = Inr (results, e')"
    for w e scenario setupVars results e'
  proof -
    have "run_vus w scenario (executeIterations_spawn load) setupVars ([], e) = Inr (results, e')"
      using that by (simp add: executeIterations_def)
    from run_vus_counts [OF this nonneg] show ?thesis by simp
  qed
  from shape total run show ?thesis by blast
qed

theorem iterations_distributed_evenly_witness:
  "executeIterations_spawn \<lparr>VUs = 3, Duration = [], RPS = 0, Iterations = 10\<rparr> =
     [(1, 4), (2, 3), (3, 3)]
   \<and> sum_list (map snd (executeIterations_spawn \<lparr>VUs = 3, Duration = [], RPS = 0, Iterations = 10\<rparr>)) = 10
   \<and> map (\<lambda>r. (VUID r, int (length (vu_Iterations r))))
        (fst (projr (executeIterations world_session_cookie scenario_NewExecutor
                       (scenario_two_users\<lparr>Load := Some \<lparr>VUs = 3, Duration = [], RPS = 0,
                                                          Iterations = 10\<rparr>\<rparr>) []))) =
     [(1, 4), (2, 3), (3, 3)]"
proof -
  let ?load = "\<lparr>VUs = 3, Duration = [], RPS = 0, Iterations = 10\<rparr>"
  let ?sc = "scenario_two_users\<lparr>Load := Some ?load\<rparr>"
  let ?run = "executeIterations world_session_cookie scenario_NewExecutor ?sc []"
  have h1: "0 < Iterations ?load" by simp
  have h2: "1 \<le> VUs ?load" by simp
  have u: "[1..3::int] = [1, 2, 3]" by code_simp
  have l: "Load ?sc = Some ?load" by simp
  have "case ?run of Inl e \<Rightarrow> False | Inr c \<Rightarrow> True" by code_simp
  hence run: "?run = Inr (fst (projr ?run), snd (projr ?run))" by (rule sum_Inr)
  note T = iterations_distributed_evenly [OF h1 h2]
  have shape: "executeIterations_spawn ?load = [(1, 4), (2, 3), (3, 3)]"
    using T [THEN conjunct1] by (simp add: u)
  have total: "sum_list (map snd (executeIterations_spawn ?load)) = 10"
    using T [THEN conjunct2, THEN conjunct1] by simp
  have "map (\<lambda>r. (VUID r, int (length (vu_Iterations r)))) (fst (projr ?run)) =
          executeIterations_spawn ?load"
    using T [THEN conjunct2, THEN conjunct2, rule_format, OF conjI [OF l run]] .
  with shape total show ?thesis by simp
qed

subsection \<open>Cookie jar and virtual users\<close>

text \<open>
  Claim C2. A cookie stored from a response received by one virtual user should never be
  attached to a request of another. With two virtual users and two iterations, each user
  sends one request; the server sets the cookie \<open>sid=abc\<close> only in its answer to user 1.
  When user 1 is served before user 2 sends, the first request of user 2 carries
  \<open>Cookie: sid=abc\<close>: the scenario executor has one HTTP executor, hence one jar, for all
  virtual users.
\<close>

theorem cookie_jar_shared_between_users:
  "(case executeIterations world_session_cookie scenario_NewExecutor scenario_two_users [] of
      Inl p \<Rightarrow> None
    | Inr (results, e) \<Rightarrow>
        Some (map (\<lambda>r. (VUID r, map (\<lambda>i. map rr_URL (Requests i)) (vu_Iterations r))) results,
              map (\<lambda>r. (hr_URL r, header_get (hr_Header r) ''Cookie''))
                  (http_calls (sc_httpExecutor e)))) =
   Some ([(1, [[''http://h.test/user/1'']]), (2, [[''http://h.test/user/2'']])],
         [(''http://h.test/user/1'', []), (''http://h.test/user/2'', ''sid=abc'')])"
  by code_simp

subsection \<open>Runtime assertions\<close>

text \<open>
  Claim C3. An assertion with one of the operators \<open><\<close>, \<open><=\<close>, \<open>>\<close>, \<open>>=\<close> should hold
  exactly when the numeric comparison holds, and one with \<open>in\<close> exactly when the actual
  value is in the list. The comparison of the code knows \<open>==\<close>, \<open>!=\<close> and \<open>contains\<close> only
  and answers true for every other operator, whatever the values: for a response with
  status 500, \<open>status < 400\<close>, \<open>status >= 600\<close> and \<open>status in [200, 201]\<close> all hold.
\<close>

theorem ordering_operators_always_hold:
  "checkAssertion w \<lparr>assert_Type = t, Field = f, Operator = ''<'', Value = v\<rparr> ctx
   \<and> checkAssertion w \<lparr>assert_Type = t, Field = f, Operator = ''<='', Value = v\<rparr> ctx
   \<and> checkAssertion w \<lparr>assert_Type = t, Field = f, Operator = ''>'', Value = v\<rparr> ctx
   \<and> checkAssertion w \<lparr>assert_Type = t, Field = f, Operator = ''>='', Value = v\<rparr> ctx
   \<and> checkAssertion w \<lparr>assert_Type = t, Field = f, Operator = ''in'', Value = v\<rparr> ctx
   \<and> checkAssertion w \<lparr>assert_Type = ''status'', Field = ''status'', Operator = ''<'',
                       Value = Str ''400''\<rparr> (status_context 500)
   \<and> checkAssertion w \<lparr>assert_Type = ''status'', Field = ''status'', Operator = ''>='',
                       Value = Str ''600''\<rparr> (status_context 500)
   \<and> checkAssertion w \<lparr>assert_Type = ''status'', Field = ''status'', Operator = ''in'',
                       Value = Arr [Num 200, Num 201]\<rparr> (status_context 500)"
  by (simp add: checkAssertion_def compareValues_other)

subsection \<open>Extraction of cookies\<close>

text \<open>
  Claim C5. A rule \<open>cookie:<Name>\<close> should bind the value of the cookie of that name in
  the variables of the iteration. The request \<open>probe\<close> has the rule
  \<open>enabled = cookie:feature\<close> and is answered with \<open>Set-Cookie: feature=true\<close>: the cookie
  reaches the jar, but the extraction knows the prefixes \<open>$.\<close>, \<open>regex:\<close> and \<open>header:\<close>
  only, binds nothing, and the condition \<open>${enabled} == true\<close> is false afterwards.
\<close>

theorem cookie_rule_binds_nothing:
  "extractVariables w ctx [(varName, ''cookie:'' @ name)] [] = Inr []
   \<and> (case executeNode world_feature_cookie probe 1 1
              \<lparr>httpExecutor = NewExecutor, vars = [], requests = []\<rparr> of
         Inl p \<Rightarrow> None
       | Inr st \<Rightarrow>
           Some (cookieJar (httpExecutor st), map rr_Status (requests st), vars st,
                 evaluateCondition ''${enabled} == true'' (vars st))) =
      Some (Some [(''h.test'', [(''feature'', ''true'')])], [200], [], False)"
proof -
  have "extractVariables w ctx [(varName, ''cookie:'' @ name)] [] = Inr []"
    by (simp add: extract_rule_def HasPrefix_def Let_def)
  moreover have
    "(case executeNode world_feature_cookie probe 1 1
              \<lparr>httpExecutor = NewExecutor, vars = [], requests = []\<rparr> of
         Inl p \<Rightarrow> None
       | Inr st \<Rightarrow>
           Some (cookieJar (httpExecutor st), map rr_Status (requests st), vars st,
                 evaluateCondition ''${enabled} == true'' (vars st))) =
      Some (Some [(''h.test'', [(''feature'', ''true'')])], [200], [], False)"
    by code_simp
  ultimately show ?thesis by (rule conjI)
qed

subsection \<open>Built-in variables\<close>

text \<open>
  Claim C6. After the substitution of the compiler and the one of the runtime, a
  reference to a built-in variable should be resolved. The compiler rewrites
  \<open>${TIME}\<close>, \<open>${UUID}\<close> and \<open>${COUNTER}\<close> to \<open>${__TIME}\<close>, \<open>${__RANDOM}\<close> and
  \<open>${__COUNTER}\<close> for the runtime, and the runtime replaces the references to \<open>VU\<close> and
  \<open>ITER\<close> only: the other three stay in the outgoing request as they are.
\<close>

theorem time_uuid_counter_unresolved:
  "ReplaceRuntimeVariables (replaceVariables vs ''${TIME}'') vu iter [] = ''${__TIME}''
   \<and> ReplaceRuntimeVariables (replaceVariables vs ''${UUID}'') vu iter [] = ''${__RANDOM}''
   \<and> ReplaceRuntimeVariables (replaceVariables vs ''${COUNTER}'') vu iter [] = ''${__COUNTER}''
   \<and> ReplaceRuntimeVariables
        (replaceVariables [] ''t=${TIME}&id=${UUID}&n=${COUNTER}&vu=${VU}'') 7 1 [] =
      ''t=${__TIME}&id=${__RANDOM}&n=${__COUNTER}&vu=7''"
proof -
  have "ReplaceRuntimeVariables (replaceVariables vs ''${TIME}'') vu iter [] = ''${__TIME}''"
       "ReplaceRuntimeVariables (replaceVariables vs ''${UUID}'') vu iter [] = ''${__RANDOM}''"
       "ReplaceRuntimeVariables (replaceVariables vs ''${COUNTER}'') vu iter [] = ''${__COUNTER}''"
    by (simp_all add: ReplaceRuntimeVariables_def replaceVariables_def ReplaceAllStringFunc.simps
        match_var_def isWord_def HasPrefix_def Let_def ReplaceAll.simps)
  moreover have
    "ReplaceRuntimeVariables
        (replaceVariables [] ''t=${TIME}&id=${UUID}&n=${COUNTER}&vu=${VU}'') 7 1 [] =
      ''t=${__TIME}&id=${__RANDOM}&n=${__COUNTER}&vu=7''"
    by code_simp
  ultimately show ?thesis by simp
qed

end
